theory Spec2Isabelle
  imports Main "HOL-Library.Char_ord" "HOL-Library.List_Lexorder" "HOL-Library.Monad_Syntax"
    "HOL-Library.Multiset"
begin

section \<open>JavaScript values\<close>

text \<open>
  Request bodies are parsed JSON, so a field of \<open>req.body\<close> is a JSON value, or
  \<open>undefined\<close> when the key is absent. Numbers are modelled at their integer values
  (the handlers only test a number for truthiness and interpolate it into a string).
\<close>

datatype jsval =
    JUndefined
  | JNull
  | JBool bool
  | JNum int
  | JStr string
  | JArr "jsval list"
  | JObj "(string \<times> jsval) list"

text \<open>ToBoolean: what \<open>!v\<close>, \<open>v ? a : b\<close>, \<open>v || w\<close> and \<open>v && w\<close> test.\<close>

fun truthy :: "jsval \<Rightarrow> bool" where
  "truthy JUndefined = False"
| "truthy JNull = False"
| "truthy (JBool b) = b"
| "truthy (JNum n) = (n \<noteq> 0)"
| "truthy (JStr s) = (s \<noteq> [])"
| "truthy (JArr xs) = True"
| "truthy (JObj kvs) = True"

definition js_or :: "jsval \<Rightarrow> jsval \<Rightarrow> jsval" where
  "js_or a b = (if truthy a then a else b)"

definition digit :: "nat \<Rightarrow> char" where
  "digit n = ''0123456789'' ! n"

fun digits :: "nat \<Rightarrow> string" where
  "digits n =
     (if n < 10 then [digit n]
      else digits (n div 10) @ [digit (n mod 10)])"

declare digits.simps [simp del]

fun join_comma :: "string list \<Rightarrow> string" where
  "join_comma [] = []"
| "join_comma [s] = s"
| "join_comma (s # t # ss) = s @ '','' @ join_comma (t # ss)"

text \<open>
  ToString, as a template literal \<open>`${v}`\<close> applies it. A number is carried at an
  integer value and printed with all its decimal digits. That is what JavaScript prints
  for a safe integer (magnitude at most \<open>Number.MAX_SAFE_INTEGER\<close>, 2^53 - 1); beyond
  it JavaScript prints the shortest digits that read back as the same double, and from
  10^21 on exponent notation (\<open>1e+21\<close>), which this function does not follow. A number
  with a fraction has no value here.
\<close>

fun to_string :: "jsval \<Rightarrow> string" where
  "to_string JUndefined = ''undefined''"
| "to_string JNull = ''null''"
| "to_string (JBool b) = (if b then ''true'' else ''false'')"
| "to_string (JNum n) = (if n < 0 then CHR ''-'' # digits (nat (- n)) else digits (nat n))"
| "to_string (JStr s) = s"
| "to_string (JArr xs) =
     join_comma (map (\<lambda>x. if x = JUndefined \<or> x = JNull then [] else to_string x) xs)"
| "to_string (JObj kvs) = ''[object Object]''"


text \<open>Destructuring \<open>const { k } = req.body\<close>: an absent key reads as \<open>undefined\<close>.\<close>

definition field :: "(string \<times> jsval) list \<Rightarrow> string \<Rightarrow> jsval" where
  "field b k = (case map_of b k of None \<Rightarrow> JUndefined | Some v \<Rightarrow> v)"

section \<open>Requests and responses\<close>

record request =
  protocol :: string
  host :: jsval
  body :: "(string \<times> jsval) list"
  forwarded_for :: jsval
  connection_address :: jsval
  socket_address :: jsval

text \<open>\<open>res.status(n).json(v)\<close>; \<open>res.json(v)\<close> alone answers 200.\<close>

record response =
  status :: nat
  json :: jsval

definition reply :: "nat \<Rightarrow> jsval \<Rightarrow> response" where
  "reply n v = \<lparr>status = n, json = v\<rparr>"

definition error_body :: "string \<Rightarrow> jsval" where
  "error_body msg = JObj [(''error'', JStr msg)]"

definition staff_url :: "request \<Rightarrow> string \<Rightarrow> string" where
  "staff_url req tok =
     protocol req @ ''://'' @ to_string (host req) @ ''/staff.html?token='' @ tok"

section \<open>String literals of the services\<close>

text \<open>
  The messages and the two suffixes of the class label are Japanese text; they are given
  here as their UTF-8 bytes.
\<close>

definition msg_token_fetch_failed :: string where
  \<comment> \<open>get-current-token, storage failure\<close>
  "msg_token_fetch_failed =
     [CHR 0xE3, CHR 0x83, CHR 0x88, CHR 0xE3, CHR 0x83, CHR 0xBC, CHR 0xE3, CHR 0x82, CHR 0xAF,
      CHR 0xE3, CHR 0x83, CHR 0xB3, CHR 0xE5, CHR 0x8F, CHR 0x96, CHR 0xE5, CHR 0xBE, CHR 0x97,
      CHR 0xE3, CHR 0x81, CHR 0xAB, CHR 0xE5, CHR 0xA4, CHR 0xB1, CHR 0xE6, CHR 0x95, CHR 0x97,
      CHR 0xE3, CHR 0x81, CHR 0x97, CHR 0xE3, CHR 0x81, CHR 0xBE, CHR 0xE3, CHR 0x81, CHR 0x97,
      CHR 0xE3, CHR 0x81, CHR 0x9F]"

definition msg_url_generation_failed :: string where
  \<comment> \<open>generate-url, storage failure\<close>
  "msg_url_generation_failed =
     [CHR 0x55, CHR 0x52, CHR 0x4C, CHR 0xE7, CHR 0x94, CHR 0x9F, CHR 0xE6, CHR 0x88, CHR 0x90,
      CHR 0xE3, CHR 0x81, CHR 0xAB, CHR 0xE5, CHR 0xA4, CHR 0xB1, CHR 0xE6, CHR 0x95, CHR 0x97,
      CHR 0xE3, CHR 0x81, CHR 0x97, CHR 0xE3, CHR 0x81, CHR 0xBE, CHR 0xE3, CHR 0x81, CHR 0x97,
      CHR 0xE3, CHR 0x81, CHR 0x9F]"

definition msg_token_verify_error :: string where
  \<comment> \<open>verify-token, storage failure\<close>
  "msg_token_verify_error =
     [CHR 0xE3, CHR 0x83, CHR 0x88, CHR 0xE3, CHR 0x83, CHR 0xBC, CHR 0xE3, CHR 0x82, CHR 0xAF,
      CHR 0xE3, CHR 0x83, CHR 0xB3, CHR 0xE6, CHR 0xA4, CHR 0x9C, CHR 0xE8, CHR 0xA8, CHR 0xBC,
      CHR 0xE3, CHR 0x82, CHR 0xA8, CHR 0xE3, CHR 0x83, CHR 0xA9, CHR 0xE3, CHR 0x83, CHR 0xBC]"

definition msg_invalid_token :: string where
  \<comment> \<open>verify-token, no matching active row\<close>
  "msg_invalid_token =
     [CHR 0xE7, CHR 0x84, CHR 0xA1, CHR 0xE5, CHR 0x8A, CHR 0xB9, CHR 0xE3, CHR 0x81, CHR 0xAA,
      CHR 0xE3, CHR 0x83, CHR 0x88, CHR 0xE3, CHR 0x83, CHR 0xBC, CHR 0xE3, CHR 0x82, CHR 0xAF,
      CHR 0xE3, CHR 0x83, CHR 0xB3, CHR 0xE3, CHR 0x81, CHR 0xA7, CHR 0xE3, CHR 0x81, CHR 0x99]"

definition msg_theme_fetch_failed :: string where
  \<comment> \<open>theme listings, storage failure\<close>
  "msg_theme_fetch_failed =
     [CHR 0xE3, CHR 0x83, CHR 0x86, CHR 0xE3, CHR 0x83, CHR 0xBC, CHR 0xE3, CHR 0x83, CHR 0x9E,
      CHR 0xE5, CHR 0x8F, CHR 0x96, CHR 0xE5, CHR 0xBE, CHR 0x97, CHR 0xE3, CHR 0x81, CHR 0xAB,
      CHR 0xE5, CHR 0xA4, CHR 0xB1, CHR 0xE6, CHR 0x95, CHR 0x97, CHR 0xE3, CHR 0x81, CHR 0x97,
      CHR 0xE3, CHR 0x81, CHR 0xBE, CHR 0xE3, CHR 0x81, CHR 0x97, CHR 0xE3, CHR 0x81, CHR 0x9F]"



definition msg_theme_delete_failed :: string where
  \<comment> \<open>theme deactivation, storage failure\<close>
  "msg_theme_delete_failed =
     [CHR 0xE3, CHR 0x83, CHR 0x86, CHR 0xE3, CHR 0x83, CHR 0xBC, CHR 0xE3, CHR 0x83, CHR 0x9E,
      CHR 0xE5, CHR 0x89, CHR 0x8A, CHR 0xE9, CHR 0x99, CHR 0xA4, CHR 0xE3, CHR 0x81, CHR 0xAB,
      CHR 0xE5, CHR 0xA4, CHR 0xB1, CHR 0xE6, CHR 0x95, CHR 0x97, CHR 0xE3, CHR 0x81, CHR 0x97,
      CHR 0xE3, CHR 0x81, CHR 0xBE, CHR 0xE3, CHR 0x81, CHR 0x97, CHR 0xE3, CHR 0x81, CHR 0x9F]"

definition msg_mark_read_failed :: string where
  \<comment> \<open>mark read, storage failure\<close>
  "msg_mark_read_failed =
     [CHR 0xE6, CHR 0x97, CHR 0xA2, CHR 0xE8, CHR 0xAA, CHR 0xAD, CHR 0xE5, CHR 0x8C, CHR 0x96,
      CHR 0xE3, CHR 0x81, CHR 0xAB, CHR 0xE5, CHR 0xA4, CHR 0xB1, CHR 0xE6, CHR 0x95, CHR 0x97,
      CHR 0xE3, CHR 0x81, CHR 0x97, CHR 0xE3, CHR 0x81, CHR 0xBE, CHR 0xE3, CHR 0x81, CHR 0x97,
      CHR 0xE3, CHR 0x81, CHR 0x9F]"

definition msg_name_and_content_required :: string where
  \<comment> \<open>submission, radio_name or content missing\<close>
  "msg_name_and_content_required =
     [CHR 0xE3, CHR 0x83, CHR 0xA9, CHR 0xE3, CHR 0x82, CHR 0xB8, CHR 0xE3, CHR 0x82, CHR 0xAA,
      CHR 0xE3, CHR 0x83, CHR 0x8D, CHR 0xE3, CHR 0x83, CHR 0xBC, CHR 0xE3, CHR 0x83, CHR 0xA0,
      CHR 0xE3, CHR 0x81, CHR 0xA8, CHR 0xE3, CHR 0x81, CHR 0x8A, CHR 0xE4, CHR 0xBE, CHR 0xBF,
      CHR 0xE3, CHR 0x82, CHR 0x8A, CHR 0xE5, CHR 0x86, CHR 0x85, CHR 0xE5, CHR 0xAE, CHR 0xB9,
      CHR 0xE3, CHR 0x81, CHR 0xAF, CHR 0xE5, CHR 0xBF, CHR 0x85, CHR 0xE9, CHR 0xA0, CHR 0x88,
      CHR 0xE3, CHR 0x81, CHR 0xA7, CHR 0xE3, CHR 0x81, CHR 0x99]"

definition msg_message_send_failed :: string where
  \<comment> \<open>submission, storage failure\<close>
  "msg_message_send_failed =
     [CHR 0xE3, CHR 0x81, CHR 0x8A, CHR 0xE4, CHR 0xBE, CHR 0xBF, CHR 0xE3, CHR 0x82, CHR 0x8A,
      CHR 0xE9, CHR 0x80, CHR 0x81, CHR 0xE4, CHR 0xBF, CHR 0xA1, CHR 0xE3, CHR 0x81, CHR 0xAB,
      CHR 0xE5, CHR 0xA4, CHR 0xB1, CHR 0xE6, CHR 0x95, CHR 0x97, CHR 0xE3, CHR 0x81, CHR 0x97,
      CHR 0xE3, CHR 0x81, CHR 0xBE, CHR 0xE3, CHR 0x81, CHR 0x97, CHR 0xE3, CHR 0x81, CHR 0x9F]"

definition msg_message_sent :: string where
  \<comment> \<open>submission, success\<close>
  "msg_message_sent =
     [CHR 0xE3, CHR 0x81, CHR 0x8A, CHR 0xE4, CHR 0xBE, CHR 0xBF, CHR 0xE3, CHR 0x82, CHR 0x8A,
      CHR 0xE3, CHR 0x82, CHR 0x92, CHR 0xE9, CHR 0x80, CHR 0x81, CHR 0xE4, CHR 0xBF, CHR 0xA1,
      CHR 0xE3, CHR 0x81, CHR 0x97, CHR 0xE3, CHR 0x81, CHR 0xBE, CHR 0xE3, CHR 0x81, CHR 0x97,
      CHR 0xE3, CHR 0x81, CHR 0x9F]"

definition msg_invalid_id :: string where
  \<comment> \<open>MongoDB service only: ObjectId.isValid rejected the path id\<close>
  "msg_invalid_id =
     [CHR 0xE7, CHR 0x84, CHR 0xA1, CHR 0xE5, CHR 0x8A, CHR 0xB9, CHR 0xE3, CHR 0x81, CHR 0xAA,
      CHR 0x49, CHR 0x44, CHR 0xE3, CHR 0x81, CHR 0xA7, CHR 0xE3, CHR 0x81, CHR 0x99]"

definition msg_theme_not_found :: string where
  \<comment> \<open>MongoDB service only: no theme with the id\<close>
  "msg_theme_not_found =
     [CHR 0xE3, CHR 0x83, CHR 0x86, CHR 0xE3, CHR 0x83, CHR 0xBC, CHR 0xE3, CHR 0x83, CHR 0x9E,
      CHR 0xE3, CHR 0x81, CHR 0x8C, CHR 0xE8, CHR 0xA6, CHR 0x8B, CHR 0xE3, CHR 0x81, CHR 0xA4,
      CHR 0xE3, CHR 0x81, CHR 0x8B, CHR 0xE3, CHR 0x82, CHR 0x8A, CHR 0xE3, CHR 0x81, CHR 0xBE,
      CHR 0xE3, CHR 0x81, CHR 0x9B, CHR 0xE3, CHR 0x82, CHR 0x93]"

definition msg_bad_theme_id :: string where
  \<comment> \<open>MongoDB service only: ObjectId.isValid rejected theme_id\<close>
  "msg_bad_theme_id =
     [CHR 0xE3, CHR 0x83, CHR 0x86, CHR 0xE3, CHR 0x83, CHR 0xBC, CHR 0xE3, CHR 0x83, CHR 0x9E,
      CHR 0x49, CHR 0x44, CHR 0xE3, CHR 0x81, CHR 0x8C, CHR 0xE4, CHR 0xB8, CHR 0x8D, CHR 0xE6,
      CHR 0xAD, CHR 0xA3, CHR 0xE3, CHR 0x81, CHR 0xA7, CHR 0xE3, CHR 0x81, CHR 0x99]"

definition nen :: string where
  \<comment> \<open>U+5E74, written after the school year\<close>
  "nen =
     [CHR 0xE5, CHR 0xB9, CHR 0xB4]"

definition kumi :: string where
  \<comment> \<open>U+7D44, written after the class\<close>
  "kumi =
     [CHR 0xE7, CHR 0xB5, CHR 0x84]"

section \<open>What both services compute from a submission\<close>

definition js_and :: "jsval \<Rightarrow> jsval \<Rightarrow> jsval" where
  "js_and a b = (if truthy a then b else a)"

text \<open>
  \<open>(school_year && school_class) ? `${school_year}Y${school_class}K` : null\<close>, where
  Y and K stand for the two characters \<open>nen\<close> and \<open>kumi\<close>.
\<close>

definition fullClass :: "jsval \<Rightarrow> jsval \<Rightarrow> jsval" where
  "fullClass school_year school_class =
     (if truthy (js_and school_year school_class)
      then JStr (to_string school_year @ nen @ to_string school_class @ kumi)
      else JNull)"

text \<open>
  \<open>req.headers['x-forwarded-for'] || req.connection.remoteAddress || req.socket.remoteAddress\<close>
\<close>

definition client_ip :: "request \<Rightarrow> jsval" where
  "client_ip req = js_or (js_or (forwarded_for req) (connection_address req)) (socket_address req)"

definition success_json :: jsval where
  "success_json = JObj [(''success'', JBool True)]"

definition sent_json :: "jsval \<Rightarrow> jsval" where
  "sent_json new_id =
     JObj [(''success'', JBool True), (''id'', new_id), (''message'', JStr msg_message_sent)]"

section \<open>The SQLite service (server/server.js)\<close>

subsection \<open>The engine and its driver\<close>

text \<open>
  A cell holds NULL, an integer or a text. Two things happen outside the repository and
  are taken as parameters: what the driver binds for an array or an object, and which
  texts the engine reads as a number when it applies NUMERIC or INTEGER affinity.
\<close>

datatype sqlval = SNull | SInt int | SText string

record sqlite3 =
  bind_object :: "jsval \<Rightarrow> sqlval"
  numeric_text :: "string \<Rightarrow> int option"

text \<open>
  The driver binds a statement parameter \<open>?\<close> by the JavaScript type of the value. A
  number is bound here as an integer, at the value it is carried at; the driver binds a
  number outside the 32-bit range as a REAL, which is not told apart here from the
  integer of the same value.
\<close>

fun bind :: "sqlite3 \<Rightarrow> jsval \<Rightarrow> sqlval" where
  "bind d JUndefined = SNull"
| "bind d JNull = SNull"
| "bind d (JBool b) = SInt (if b then 1 else 0)"
| "bind d (JNum n) = SInt n"
| "bind d (JStr s) = SText s"
| "bind d (JArr xs) = bind_object d (JArr xs)"
| "bind d (JObj kvs) = bind_object d (JObj kvs)"

text \<open>Column affinity: TEXT columns, and the NUMERIC (DATE) and INTEGER columns.\<close>

fun text_affinity :: "sqlval \<Rightarrow> sqlval" where
  "text_affinity (SInt n) = SText (to_string (JNum n))"
| "text_affinity v = v"

fun numeric_affinity :: "sqlite3 \<Rightarrow> sqlval \<Rightarrow> sqlval" where
  "numeric_affinity d (SText s) =
     (case numeric_text d s of Some n \<Rightarrow> SInt n | None \<Rightarrow> SText s)"
| "numeric_affinity d v = v"

text \<open>
  Comparisons as a WHERE clause reads them: a comparison with NULL is not true, a number
  sorts before every text, and texts compare byte by byte.
\<close>

fun sql_le :: "sqlval \<Rightarrow> sqlval \<Rightarrow> bool" where
  "sql_le (SInt a) (SInt b) = (a \<le> b)"
| "sql_le (SInt a) (SText b) = True"
| "sql_le (SText a) (SInt b) = False"
| "sql_le (SText a) (SText b) = (a \<le> b)"
| "sql_le a b = False"

fun sql_eq :: "sqlval \<Rightarrow> sqlval \<Rightarrow> bool" where
  "sql_eq (SInt a) (SInt b) = (a = b)"
| "sql_eq (SText a) (SText b) = (a = b)"
| "sql_eq a b = False"

subsection \<open>The three tables\<close>

record theme_row =
  t_id :: int
  t_title :: sqlval
  t_description :: sqlval
  t_start_date :: sqlval
  t_end_date :: sqlval
  t_created_at :: string
  t_is_active :: int

record message_row =
  m_id :: int
  m_sender_name :: sqlval
  m_radio_name :: sqlval
  m_school_class :: sqlval
  m_theme_id :: sqlval
  m_content :: sqlval
  m_share_name :: int
  m_share_class :: int
  m_share_theme :: int
  m_ip_address :: sqlval
  m_created_at :: string
  m_is_read :: int

record token_row =
  a_id :: int
  a_token :: string
  a_created_at :: string
  a_is_active :: int

record sqlite_db =
  themes :: "theme_row list"
  messages :: "message_row list"
  access_token :: "token_row list"

text \<open>The rowid a new row gets: one more than the largest in the table.\<close>

definition next_rowid :: "int list \<Rightarrow> int" where
  "next_rowid ids = fold max ids 0 + 1"

text \<open>
  \<open>ORDER BY created_at DESC\<close>, for both services. Neither store fixes the order of rows
  with equal \<open>created_at\<close>; here they come out latest inserted first.
\<close>

definition newest_first :: "('r \<Rightarrow> 'k::linorder) \<Rightarrow> 'r list \<Rightarrow> 'r list" where
  "newest_first key rows = rev (sort_key key rows)"

subsection \<open>Access token endpoints\<close>

text \<open>
  Every statement reports to its callback; \<open>err\<close> says that the callback got an error
  (the storage layer failed). \<open>now\<close> is the engine's CURRENT_TIMESTAMP.
\<close>

definition token_json :: "request \<Rightarrow> string \<Rightarrow> jsval" where
  "token_json req tok = JObj [(''url'', JStr (staff_url req tok)), (''token'', JStr tok)]"

definition no_token_json :: jsval where
  "no_token_json = JObj [(''url'', JNull), (''token'', JNull)]"

definition sq_get_current_token :: "bool \<Rightarrow> request \<Rightarrow> sqlite_db \<Rightarrow> response" where
  "sq_get_current_token err req db =
     (if err then reply 500 (error_body msg_token_fetch_failed)
      else case find (\<lambda>r. a_is_active r = 1) (access_token db) of
             Some row \<Rightarrow> reply 200 (token_json req (a_token row))
           | None \<Rightarrow> reply 200 no_token_json)"

text \<open>
  \<open>INSERT INTO access_token (token, is_active) VALUES (?, 1)\<close>: the token is UNIQUE, the
  rowid and created_at are the defaults.
\<close>

definition insert_token :: "bool \<Rightarrow> string \<Rightarrow> string \<Rightarrow> token_row list \<Rightarrow> token_row list option" where
  "insert_token err now tok rows =
     (if err \<or> (\<exists>r \<in> set rows. a_token r = tok) then None
      else Some (rows @ [\<lparr>a_id = next_rowid (map a_id rows), a_token = tok,
                           a_created_at = now, a_is_active = 1\<rparr>]))"

text \<open>\<open>token\<close> is the result of \<open>uuidv4()\<close>.\<close>

definition sq_generate_url ::
  "bool \<Rightarrow> bool \<Rightarrow> string \<Rightarrow> string \<Rightarrow> request \<Rightarrow> sqlite_db \<Rightarrow> sqlite_db \<times> response" where
  "sq_generate_url delete_err insert_err now token req db =
     (if delete_err then (db, reply 500 (error_body msg_url_generation_failed))
      else
        let db1 = db\<lparr>access_token := []\<rparr> in
        case insert_token insert_err now token (access_token db1) of
          None \<Rightarrow> (db1, reply 500 (error_body msg_url_generation_failed))
        | Some rows \<Rightarrow> (db1\<lparr>access_token := rows\<rparr>, reply 200 (token_json req token)))"

definition invalid_token_json :: jsval where
  "invalid_token_json = JObj [(''valid'', JBool False), (''message'', JStr msg_invalid_token)]"

definition sq_verify_token :: "bool \<Rightarrow> string \<Rightarrow> sqlite_db \<Rightarrow> response" where
  "sq_verify_token err token db =
     (if err then reply 500 (error_body msg_token_verify_error)
      else case find (\<lambda>r. a_token r = token \<and> a_is_active r = 1) (access_token db) of
             None \<Rightarrow> reply 401 invalid_token_json
           | Some row \<Rightarrow> reply 200 (JObj [(''valid'', JBool True)]))"

subsection \<open>Theme endpoints\<close>

definition sq_staff_themes :: "bool \<Rightarrow> sqlite_db \<Rightarrow> response + theme_row list" where
  "sq_staff_themes err db =
     (if err then Inl (reply 500 (error_body msg_theme_fetch_failed))
      else Inr (newest_first t_created_at (filter (\<lambda>r. t_is_active r = 1) (themes db))))"


text \<open>
  \<open>WHERE id = ?\<close> with the path parameter, a text: the engine applies the column's
  INTEGER affinity to it before it compares.
\<close>

definition id_matches :: "sqlite3 \<Rightarrow> string \<Rightarrow> int \<Rightarrow> bool" where
  "id_matches d param rowid = sql_eq (SInt rowid) (numeric_affinity d (SText param))"

definition sq_delete_theme ::
  "sqlite3 \<Rightarrow> bool \<Rightarrow> string \<Rightarrow> sqlite_db \<Rightarrow> sqlite_db \<times> response" where
  "sq_delete_theme d err id' db =
     (if err then (db, reply 500 (error_body msg_theme_delete_failed))
      else (db\<lparr>themes :=
                  map (\<lambda>r. if id_matches d id' (t_id r) then r\<lparr>t_is_active := 0\<rparr> else r) (themes db)\<rparr>,
            reply 200 success_json))"

text \<open>
  \<open>today\<close> is \<open>new Date().toISOString().split('T')[0]\<close>; \<open>now_iso\<close> is what
  \<open>toISOString()\<close> returned. The columns are DATE columns (NUMERIC affinity), which the
  engine also applies to the parameter.
\<close>

definition sq_student_themes ::
  "sqlite3 \<Rightarrow> bool \<Rightarrow> string \<Rightarrow> sqlite_db \<Rightarrow> response + theme_row list" where
  "sq_student_themes d err now_iso db =
     (let today = takeWhile (\<lambda>c. c \<noteq> CHR ''T'') now_iso;
          p = numeric_affinity d (SText today)
      in if err then Inl (reply 500 (error_body msg_theme_fetch_failed))
         else Inr (newest_first t_created_at
                (filter (\<lambda>r. t_is_active r = 1
                            \<and> (t_start_date r = SNull \<or> sql_le (t_start_date r) p)
                            \<and> (t_end_date r = SNull \<or> sql_le p (t_end_date r)))
                   (themes db))))"

subsection \<open>Message endpoints\<close>

definition sq_mark_read ::
  "sqlite3 \<Rightarrow> bool \<Rightarrow> string \<Rightarrow> sqlite_db \<Rightarrow> sqlite_db \<times> response" where
  "sq_mark_read d err id' db =
     (if err then (db, reply 500 (error_body msg_mark_read_failed))
      else (db\<lparr>messages :=
                  map (\<lambda>r. if id_matches d id' (m_id r) then r\<lparr>m_is_read := 1\<rparr> else r) (messages db)\<rparr>,
            reply 200 success_json))"

text \<open>
  \<open>radio_name\<close> and \<open>content\<close> are NOT NULL. The table declares a foreign key on
  \<open>theme_id\<close>, which the engine enforces only after \<open>PRAGMA foreign_keys = ON\<close>; the
  service never issues it, so the insert does not look at the themes.
\<close>

definition sq_post_message ::
  "sqlite3 \<Rightarrow> bool \<Rightarrow> string \<Rightarrow> request \<Rightarrow> sqlite_db \<Rightarrow> sqlite_db \<times> response" where
  "sq_post_message d err now req db =
     (let sender_name = field (body req) ''sender_name'';
          radio_name = field (body req) ''radio_name'';
          school_year = field (body req) ''school_year'';
          school_class = field (body req) ''school_class'';
          theme_id = field (body req) ''theme_id'';
          content = field (body req) ''content'';
          share_name = field (body req) ''share_name'';
          share_class = field (body req) ''share_class'';
          share_theme = field (body req) ''share_theme''
      in if \<not> truthy radio_name \<or> \<not> truthy content
         then (db, reply 400 (error_body msg_name_and_content_required))
         else
           let ip = client_ip req;
               row = \<lparr>m_id = next_rowid (map m_id (messages db)),
                      m_sender_name = text_affinity (bind d (js_or sender_name JNull)),
                      m_radio_name = text_affinity (bind d radio_name),
                      m_school_class = text_affinity (bind d (fullClass school_year school_class)),
                      m_theme_id = numeric_affinity d (bind d theme_id),
                      m_content = text_affinity (bind d content),
                      m_share_name = (if truthy share_name then 1 else 0),
                      m_share_class = (if truthy share_class then 1 else 0),
                      m_share_theme = (if truthy share_theme then 1 else 0),
                      m_ip_address = text_affinity (bind d ip),
                      m_created_at = now,
                      m_is_read = 0\<rparr>
           in if err \<or> m_radio_name row = SNull \<or> m_content row = SNull
              then (db, reply 500 (error_body msg_message_send_failed))
              else (db\<lparr>messages := messages db @ [row]\<rparr>,
                    reply 200 (sent_json (JNum (m_id row)))))"

section \<open>The MongoDB service (the second server file)\<close>

subsection \<open>The document mapper\<close>

text \<open>
  What mongoose does with a value is outside the repository and taken as parameters:
  \<open>mongoose.Types.ObjectId.isValid\<close>, and the casts a schema applies to a value that
  is neither null nor undefined (\<open>None\<close>: the cast throws).
\<close>

type_synonym objectid = string

record mongoose =
  isValid :: "jsval \<Rightarrow> bool"
  castObjectId :: "jsval \<Rightarrow> objectid option"
  castString :: "jsval \<Rightarrow> string option"
  castDate :: "jsval \<Rightarrow> int option"

subsection \<open>The three collections\<close>

text \<open>A Date is its time value, the milliseconds since the epoch.\<close>

record theme_doc =
  td_id :: objectid
  td_title :: string
  td_description :: "string option"
  td_start_date :: "int option"
  td_end_date :: "int option"
  td_created_at :: int
  td_is_active :: bool

record message_doc =
  md_id :: objectid
  md_sender_name :: "string option"
  md_radio_name :: string
  md_school_class :: "string option"
  md_theme_id :: "objectid option"
  md_content :: string
  md_share_name :: bool
  md_share_class :: bool
  md_share_theme :: bool
  md_ip_address :: "string option"
  md_created_at :: int
  md_is_read :: bool

record token_doc =
  ad_id :: objectid
  ad_token :: string
  ad_created_at :: int
  ad_is_active :: bool

record mongo_db =
  Theme :: "theme_doc list"
  Message :: "message_doc list"
  AccessToken :: "token_doc list"

subsection \<open>Access token endpoints\<close>

text \<open>
  \<open>err\<close> says that the awaited call threw (the \<open>catch\<close> branch runs); \<open>oid\<close> is the
  \<open>_id\<close> the new document gets and \<open>now\<close> is \<open>Date.now()\<close>.
\<close>

definition mg_get_current_token :: "bool \<Rightarrow> request \<Rightarrow> mongo_db \<Rightarrow> response" where
  "mg_get_current_token err req db =
     (if err then reply 500 (error_body msg_token_fetch_failed)
      else case newest_first ad_created_at (filter ad_is_active (AccessToken db)) of
             row # rest \<Rightarrow> reply 200 (token_json req (ad_token row))
           | [] \<Rightarrow> reply 200 no_token_json)"

text \<open>\<open>AccessToken.create({ token, is_active: true })\<close>: the token has a unique index.\<close>

definition create_token :: "bool \<Rightarrow> objectid \<Rightarrow> int \<Rightarrow> string \<Rightarrow> token_doc list \<Rightarrow> token_doc list option" where
  "create_token err oid now tok docs =
     (if err \<or> (\<exists>r \<in> set docs. ad_token r = tok) then None
      else Some (docs @ [\<lparr>ad_id = oid, ad_token = tok, ad_created_at = now, ad_is_active = True\<rparr>]))"

definition mg_generate_url ::
  "bool \<Rightarrow> bool \<Rightarrow> objectid \<Rightarrow> int \<Rightarrow> string \<Rightarrow> request \<Rightarrow> mongo_db \<Rightarrow> mongo_db \<times> response" where
  "mg_generate_url delete_err create_err oid now token req db =
     (if delete_err then (db, reply 500 (error_body msg_url_generation_failed))
      else
        let db1 = db\<lparr>AccessToken := []\<rparr> in
        case create_token create_err oid now token (AccessToken db1) of
          None \<Rightarrow> (db1, reply 500 (error_body msg_url_generation_failed))
        | Some docs \<Rightarrow> (db1\<lparr>AccessToken := docs\<rparr>, reply 200 (token_json req token)))"

definition mg_verify_token :: "bool \<Rightarrow> string \<Rightarrow> mongo_db \<Rightarrow> response" where
  "mg_verify_token err token db =
     (if err then reply 500 (error_body msg_token_verify_error)
      else case find (\<lambda>r. ad_token r = token \<and> ad_is_active r) (AccessToken db) of
             None \<Rightarrow> reply 401 invalid_token_json
           | Some row \<Rightarrow> reply 200 (JObj [(''valid'', JBool True)]))"

subsection \<open>Casting and validation of a new document\<close>

text \<open>
  A schema leaves null and undefined alone and casts every other value; a string cast to
  String is itself. The outer \<open>None\<close> is a cast or validation error, thrown by
  \<open>create\<close>.
\<close>

definition cast_string :: "mongoose \<Rightarrow> jsval \<Rightarrow> string option" where
  "cast_string m v = (case v of JStr s \<Rightarrow> Some s | _ \<Rightarrow> castString m v)"

definition cast_field :: "(jsval \<Rightarrow> 'a option) \<Rightarrow> jsval \<Rightarrow> 'a option option" where
  "cast_field c v =
     (if v = JUndefined \<or> v = JNull then Some None else map_option Some (c v))"

text \<open>\<open>{ type: String, required: true }\<close>: present and not the empty string.\<close>

definition required_string :: "mongoose \<Rightarrow> jsval \<Rightarrow> string option" where
  "required_string m v =
     (case cast_field (cast_string m) v of
        Some (Some s) \<Rightarrow> if s = [] then None else Some s
      | _ \<Rightarrow> None)"

subsection \<open>Theme endpoints\<close>

text \<open>\<open>toClient\<close>: every document with \<open>id\<close> added, a copy of \<open>_id\<close>.\<close>

definition toClient :: "theme_doc list \<Rightarrow> (theme_doc \<times> objectid) list" where
  "toClient docs = map (\<lambda>doc. (doc, td_id doc)) docs"

definition mg_staff_themes :: "bool \<Rightarrow> mongo_db \<Rightarrow> response + (theme_doc \<times> objectid) list" where
  "mg_staff_themes err db =
     (if err then Inl (reply 500 (error_body msg_theme_fetch_failed))
      else Inr (toClient (newest_first td_created_at (filter td_is_active (Theme db)))))"




text \<open>\<open>findByIdAndUpdate\<close> changes the first document with the \<open>_id\<close>, if there is one.\<close>

fun update_first :: "('r \<Rightarrow> bool) \<Rightarrow> ('r \<Rightarrow> 'r) \<Rightarrow> 'r list \<Rightarrow> 'r list" where
  "update_first p f [] = []"
| "update_first p f (r # rs) = (if p r then f r # rs else r # update_first p f rs)"

definition mg_delete_theme ::
  "mongoose \<Rightarrow> bool \<Rightarrow> string \<Rightarrow> mongo_db \<Rightarrow> mongo_db \<times> response" where
  "mg_delete_theme m err id' db =
     (if \<not> isValid m (JStr id') then (db, reply 400 (error_body msg_invalid_id))
      else
        case castObjectId m (JStr id') of
          None \<Rightarrow> (db, reply 500 (error_body msg_theme_delete_failed))
        | Some oid \<Rightarrow>
            if err then (db, reply 500 (error_body msg_theme_delete_failed))
            else
              (case find (\<lambda>r. td_id r = oid) (Theme db) of
                 None \<Rightarrow> (db, reply 404 (error_body msg_theme_not_found))
               | Some result \<Rightarrow>
                   (db\<lparr>Theme := update_first (\<lambda>r. td_id r = oid)
                                   (\<lambda>r. r\<lparr>td_is_active := False\<rparr>) (Theme db)\<rparr>,
                    reply 200 success_json)))"

text \<open>\<open>today\<close> is \<open>new Date()\<close>: the time value of the moment of the request.\<close>

definition mg_student_themes ::
  "bool \<Rightarrow> int \<Rightarrow> mongo_db \<Rightarrow> response + (theme_doc \<times> objectid) list" where
  "mg_student_themes err today db =
     (if err then Inl (reply 500 (error_body msg_theme_fetch_failed))
      else Inr (toClient (newest_first td_created_at
             (filter (\<lambda>r. td_is_active r
                         \<and> (case td_start_date r of None \<Rightarrow> True | Some s \<Rightarrow> s \<le> today)
                         \<and> (case td_end_date r of None \<Rightarrow> True | Some e \<Rightarrow> e \<ge> today))
                (Theme db)))))"

subsection \<open>Message endpoints\<close>

definition mg_mark_read ::
  "mongoose \<Rightarrow> bool \<Rightarrow> string \<Rightarrow> mongo_db \<Rightarrow> mongo_db \<times> response" where
  "mg_mark_read m err id' db =
     (if \<not> isValid m (JStr id') then (db, reply 400 (error_body msg_invalid_id))
      else
        case castObjectId m (JStr id') of
          None \<Rightarrow> (db, reply 500 (error_body msg_mark_read_failed))
        | Some oid \<Rightarrow>
            if err then (db, reply 500 (error_body msg_mark_read_failed))
            else (db\<lparr>Message := update_first (\<lambda>r. md_id r = oid) (\<lambda>r. r\<lparr>md_is_read := True\<rparr>) (Message db)\<rparr>,
                  reply 200 success_json))"

definition new_message ::
  "mongoose \<Rightarrow> objectid \<Rightarrow> int \<Rightarrow> jsval \<Rightarrow> jsval \<Rightarrow> jsval \<Rightarrow> jsval \<Rightarrow> jsval
     \<Rightarrow> bool \<Rightarrow> bool \<Rightarrow> bool \<Rightarrow> jsval \<Rightarrow> message_doc option" where
  "new_message m oid now sender_name radio_name school_class theme_id content
       share_name share_class share_theme ip_address =
     do {
       sn \<leftarrow> cast_field (cast_string m) sender_name;
       rn \<leftarrow> required_string m radio_name;
       sc \<leftarrow> cast_field (cast_string m) school_class;
       ti \<leftarrow> cast_field (castObjectId m) theme_id;
       ct \<leftarrow> required_string m content;
       ip \<leftarrow> cast_field (cast_string m) ip_address;
       Some \<lparr>md_id = oid, md_sender_name = sn, md_radio_name = rn, md_school_class = sc,
             md_theme_id = ti, md_content = ct, md_share_name = share_name,
             md_share_class = share_class, md_share_theme = share_theme,
             md_ip_address = ip, md_created_at = now, md_is_read = False\<rparr>
     }"

definition mg_post_message ::
  "mongoose \<Rightarrow> bool \<Rightarrow> objectid \<Rightarrow> int \<Rightarrow> request \<Rightarrow> mongo_db \<Rightarrow> mongo_db \<times> response" where
  "mg_post_message m err oid now req db =
     (let sender_name = field (body req) ''sender_name'';
          radio_name = field (body req) ''radio_name'';
          school_year = field (body req) ''school_year'';
          school_class = field (body req) ''school_class'';
          theme_id = field (body req) ''theme_id'';
          content = field (body req) ''content'';
          share_name = field (body req) ''share_name'';
          share_class = field (body req) ''share_class'';
          share_theme = field (body req) ''share_theme''
      in if \<not> truthy radio_name \<or> \<not> truthy content
         then (db, reply 400 (error_body msg_name_and_content_required))
         else if truthy theme_id \<and> \<not> isValid m theme_id
         then (db, reply 400 (error_body msg_bad_theme_id))
         else
           let themeObjectId = (if truthy theme_id then theme_id else JNull);
               ip = client_ip req
           in case new_message m oid now (js_or sender_name JNull) radio_name
                     (fullClass school_year school_class) themeObjectId content
                     (truthy share_name) (truthy share_class) (truthy share_theme) ip of
                None \<Rightarrow> (db, reply 500 (error_body msg_message_send_failed))
              | Some message \<Rightarrow>
                  if err then (db, reply 500 (error_body msg_message_send_failed))
                  else (db\<lparr>Message := Message db @ [message]\<rparr>,
                        reply 200 (sent_json (JStr (md_id message)))))"

section \<open>The row a request stored\<close>

text \<open>
  A successful insert appends one row; these name it, for the statements below. They
  are meant where the handler answered 200.
\<close>

definition sq_submitted :: "sqlite3 \<Rightarrow> bool \<Rightarrow> string \<Rightarrow> request \<Rightarrow> sqlite_db \<Rightarrow> message_row" where
  "sq_submitted d err now req db = last (messages (fst (sq_post_message d err now req db)))"

definition mg_submitted ::
  "mongoose \<Rightarrow> bool \<Rightarrow> objectid \<Rightarrow> int \<Rightarrow> request \<Rightarrow> mongo_db \<Rightarrow> message_doc" where
  "mg_submitted m err oid now req db = last (Message (fst (mg_post_message m err oid now req db)))"



section \<open>Equivalent token stores\<close>


section \<open>Calendar dates\<close>

text \<open>
  To say what the student listing means on dates: a calendar date is a year, a month and
  a day, and its text is YYYY-MM-DD, which is what a date input sends and what
  \<open>toISOString()\<close> gives before the T (for the years 0 to 9999). \<open>date_le\<close> is
  "not later than".
\<close>

definition two_digits :: "nat \<Rightarrow> string" where
  "two_digits n = [digit (n div 10 mod 10), digit (n mod 10)]"

type_synonym date = "nat \<times> nat \<times> nat"

fun iso_date :: "date \<Rightarrow> string" where
  "iso_date (y, m, d) =
     two_digits (y div 100) @ two_digits (y mod 100) @ ''-'' @ two_digits m @ ''-'' @ two_digits d"

fun date_le :: "date \<Rightarrow> date \<Rightarrow> bool" where
  "date_le (y, m, d) (y', m', d') = (y < y' \<or> y = y' \<and> (m < m' \<or> m = m' \<and> d \<le> d'))"

fun calendar_date :: "date \<Rightarrow> bool" where
  "calendar_date (y, m, d) = (y < 10000 \<and> 1 \<le> m \<and> m \<le> 12 \<and> 1 \<le> d \<and> d \<le> 31)"

text \<open>A DATE cell: NULL, or the text of a date.\<close>

fun date_cell :: "date option \<Rightarrow> sqlval" where
  "date_cell None = SNull"
| "date_cell (Some x) = SText (iso_date x)"

section \<open>Sample drivers and stores\<close>

text \<open>
  The examples below run the handlers on concrete requests. They need a driver for each
  service; these two do what the real ones do on the values the examples use: a path id
  or a \<open>theme_id\<close> is a valid ObjectId when it is a string of 24 hexadecimal digits, and
  a text is read as a number when it is a string of decimal digits.
\<close>

definition hex24 :: "string \<Rightarrow> bool" where
  "hex24 s = (length s = 24 \<and> list_all (\<lambda>c. c \<in> set ''0123456789abcdefABCDEF'') s)"

definition sample_mongoose :: mongoose where
  "sample_mongoose =
     \<lparr>isValid = (\<lambda>v. case v of JStr s \<Rightarrow> hex24 s | _ \<Rightarrow> False),
      castObjectId = (\<lambda>v. case v of JStr s \<Rightarrow> if hex24 s then Some s else None | _ \<Rightarrow> None),
      castString = (\<lambda>v. case v of JNum n \<Rightarrow> Some (to_string v) | JBool b \<Rightarrow> Some (to_string v)
                               | _ \<Rightarrow> None),
      castDate = (\<lambda>v. case v of JNum n \<Rightarrow> Some n | _ \<Rightarrow> None)\<rparr>"

definition decimal_text :: "string \<Rightarrow> int option" where
  "decimal_text s =
     (if s \<noteq> [] \<and> list_all (\<lambda>c. c \<in> set ''0123456789'') s
      then Some (foldl (\<lambda>n c. 10 * n + (of_char c - 48)) 0 s)
      else None)"

definition sample_sqlite3 :: sqlite3 where
  "sample_sqlite3 = \<lparr>bind_object = (\<lambda>v. SText (to_string v)), numeric_text = decimal_text\<rparr>"

definition sample_request :: "(string \<times> jsval) list \<Rightarrow> request" where
  "sample_request b =
     \<lparr>protocol = ''https'', host = JStr ''radio.example'', body = b,
      forwarded_for = JUndefined, connection_address = JStr ''192.0.2.7'',
      socket_address = JStr ''192.0.2.7''\<rparr>"

text \<open>
  One theme open from 2024-05-01 to 2024-05-10, one message under it and one access
  token, in each service's store.
\<close>

definition sample_sqlite_db :: sqlite_db where
  "sample_sqlite_db =
     \<lparr>themes = [\<lparr>t_id = 1, t_title = SText ''Spring'', t_description = SNull,
                  t_start_date = SText ''2024-05-01'', t_end_date = SText ''2024-05-10'',
                  t_created_at = ''2024-04-30 09:00:00'', t_is_active = 1\<rparr>],
      messages = [\<lparr>m_id = 1, m_sender_name = SNull, m_radio_name = SText ''Taro'',
                    m_school_class = SNull, m_theme_id = SInt 1, m_content = SText ''hello'',
                    m_share_name = 0, m_share_class = 0, m_share_theme = 0,
                    m_ip_address = SText ''192.0.2.7'',
                    m_created_at = ''2024-05-02 10:00:00'', m_is_read = 0\<rparr>],
      access_token = [\<lparr>a_id = 1, a_token = ''old-token'',
                        a_created_at = ''2024-04-01 08:00:00'', a_is_active = 1\<rparr>]\<rparr>"

text \<open>1714467600000 is 2024-04-30T09:00:00Z, 1715299200000 is 2024-05-10T00:00:00Z.\<close>

definition sample_mongo_db :: mongo_db where
  "sample_mongo_db =
     \<lparr>Theme = [\<lparr>td_id = ''665000000000000000000001'', td_title = ''Spring'',
                 td_description = None, td_start_date = Some 1714521600000,
                 td_end_date = Some 1715299200000, td_created_at = 1714467600000,
                 td_is_active = True\<rparr>],
      Message = [\<lparr>md_id = ''665000000000000000000002'', md_sender_name = None,
                   md_radio_name = ''Taro'', md_school_class = None,
                   md_theme_id = Some ''665000000000000000000001'', md_content = ''hello'',
                   md_share_name = False, md_share_class = False, md_share_theme = False,
                   md_ip_address = Some ''192.0.2.7'', md_created_at = 1714644000000,
                   md_is_read = False\<rparr>],
      AccessToken = [\<lparr>ad_id = ''665000000000000000000003'', ad_token = ''old-token'',
                       ad_created_at = 1711958400000, ad_is_active = True\<rparr>]\<rparr>"

text \<open>
  Submissions: a complete one (the sender name left empty, \<open>share_name\<close> the string
  "false"), one with the year left empty, and one whose \<open>theme_id\<close> is no identifier.
\<close>

definition sample_submission :: "(string \<times> jsval) list" where
  "sample_submission =
     [(''sender_name'', JStr []), (''radio_name'', JStr ''Taro''),
      (''school_year'', JStr ''2''), (''school_class'', JStr ''B''),
      (''content'', JStr ''hello''), (''share_name'', JStr ''false''),
      (''share_class'', JNum 0)]"







section \<open>Basic facts\<close>

lemma digits_not_Nil: "digits n \<noteq> []"
  by (subst digits.simps) simp

lemma find_case_const:
  "(case find P xs of None \<Rightarrow> a | Some x \<Rightarrow> b) = (if \<exists>x \<in> set xs. P x then b else a)"
  by (induction xs) auto

lemma newest_first_single: "newest_first key [x] = [x]"
  by (simp add: newest_first_def)

section \<open>Access tokens\<close>

lemma sq_issue:
  assumes "status (snd (sq_generate_url de ie now tok req db)) = 200"
  shows "access_token (fst (sq_generate_url de ie now tok req db)) =
           [\<lparr>a_id = 1, a_token = tok, a_created_at = now, a_is_active = 1\<rparr>]"
    and "json (snd (sq_generate_url de ie now tok req db)) = token_json req tok"
  using assms
  by (auto simp: sq_generate_url_def insert_token_def reply_def next_rowid_def Let_def
           split: if_splits)

lemma mg_issue:
  assumes "status (snd (mg_generate_url de ie oid now tok req db)) = 200"
  shows "AccessToken (fst (mg_generate_url de ie oid now tok req db)) =
           [\<lparr>ad_id = oid, ad_token = tok, ad_created_at = now, ad_is_active = True\<rparr>]"
    and "json (snd (mg_generate_url de ie oid now tok req db)) = token_json req tok"
  using assms
  by (auto simp: mg_generate_url_def create_token_def reply_def Let_def split: if_splits)

lemma sq_current_single:
  "access_token db = [\<lparr>a_id = i, a_token = tok, a_created_at = now, a_is_active = 1\<rparr>] \<Longrightarrow>
   sq_get_current_token False req db = reply 200 (token_json req tok)"
  by (simp add: sq_get_current_token_def)

lemma mg_current_single:
  "AccessToken db = [\<lparr>ad_id = i, ad_token = tok, ad_created_at = now, ad_is_active = True\<rparr>] \<Longrightarrow>
   mg_get_current_token False req db = reply 200 (token_json req tok)"
  by (simp add: mg_get_current_token_def newest_first_single)

text \<open>
  C1. Whatever the token store held, when generate-url answers 200 the store holds
  exactly one row: the new one, active, with the token just generated (so every row
  from before is gone); the response carries that token, and a get-current-token that
  follows (its read succeeding) returns it. This holds for the \<open>access_token\<close> table
  of the SQLite service and for the \<open>AccessToken\<close> collection of the MongoDB service.
\<close>

theorem issue_replaces_token:
  "(status (snd (sq_generate_url de ie now tok req db)) = 200 \<longrightarrow>
      access_token (fst (sq_generate_url de ie now tok req db)) =
        [\<lparr>a_id = 1, a_token = tok, a_created_at = now, a_is_active = 1\<rparr>]
      \<and> json (snd (sq_generate_url de ie now tok req db)) = token_json req tok
      \<and> sq_get_current_token False req' (fst (sq_generate_url de ie now tok req db)) =
          reply 200 (token_json req' tok))
   \<and> (status (snd (mg_generate_url de' ie' oid now' tok req mdb)) = 200 \<longrightarrow>
      AccessToken (fst (mg_generate_url de' ie' oid now' tok req mdb)) =
        [\<lparr>ad_id = oid, ad_token = tok, ad_created_at = now', ad_is_active = True\<rparr>]
      \<and> json (snd (mg_generate_url de' ie' oid now' tok req mdb)) = token_json req tok
      \<and> mg_get_current_token False req' (fst (mg_generate_url de' ie' oid now' tok req mdb)) =
          reply 200 (token_json req' tok))"
  using sq_issue sq_current_single mg_issue mg_current_single by metis

theorem issue_replaces_token_witness:
  "status (snd (sq_generate_url False False ''2024-05-03 00:00:00'' ''new-token''
             (sample_request []) sample_sqlite_db)) = 200
   \<and> access_token (fst (sq_generate_url False False ''2024-05-03 00:00:00'' ''new-token''
             (sample_request []) sample_sqlite_db)) =
        [\<lparr>a_id = 1, a_token = ''new-token'', a_created_at = ''2024-05-03 00:00:00'',
          a_is_active = 1\<rparr>]
   \<and> sq_get_current_token False (sample_request [])
        (fst (sq_generate_url False False ''2024-05-03 00:00:00'' ''new-token''
             (sample_request []) sample_sqlite_db)) =
        reply 200 (token_json (sample_request []) ''new-token'')
   \<and> status (snd (mg_generate_url False False ''665000000000000000000004'' 1714694400000
             ''new-token'' (sample_request []) sample_mongo_db)) = 200
   \<and> AccessToken (fst (mg_generate_url False False ''665000000000000000000004'' 1714694400000
             ''new-token'' (sample_request []) sample_mongo_db)) =
        [\<lparr>ad_id = ''665000000000000000000004'', ad_token = ''new-token'',
          ad_created_at = 1714694400000, ad_is_active = True\<rparr>]
   \<and> mg_get_current_token False (sample_request [])
        (fst (mg_generate_url False False ''665000000000000000000004'' 1714694400000
             ''new-token'' (sample_request []) sample_mongo_db)) =
        reply 200 (token_json (sample_request []) ''new-token'')"
proof -
  have s: "status (snd (sq_generate_url False False ''2024-05-03 00:00:00'' ''new-token''
             (sample_request []) sample_sqlite_db)) = 200"
    by (simp add: sq_generate_url_def insert_token_def reply_def)
  have m: "status (snd (mg_generate_url False False ''665000000000000000000004'' 1714694400000
             ''new-token'' (sample_request []) sample_mongo_db)) = 200"
    by (simp add: mg_generate_url_def create_token_def reply_def)
  show ?thesis
    using s m
      issue_replaces_token [of False False "''2024-05-03 00:00:00''" "''new-token''"
        "sample_request []" sample_sqlite_db "sample_request []" False False
        "''665000000000000000000004''" 1714694400000 sample_mongo_db]
    by blast
qed

text \<open>
  C2. verify-token answers 200 with \<open>valid: true\<close> exactly when the store holds a row
  whose token is the candidate and which is active; for every other candidate it answers
  401 with \<open>valid: false\<close>, and it answers 500 exactly when the storage layer failed.
  Both services.
\<close>

theorem verify_token_iff:
  "sq_verify_token err t db =
     (if err then reply 500 (error_body msg_token_verify_error)
      else if \<exists>r \<in> set (access_token db). a_token r = t \<and> a_is_active r = 1
      then reply 200 (JObj [(''valid'', JBool True)])
      else reply 401 invalid_token_json)
   \<and> mg_verify_token err t mdb =
     (if err then reply 500 (error_body msg_token_verify_error)
      else if \<exists>r \<in> set (AccessToken mdb). ad_token r = t \<and> ad_is_active r
      then reply 200 (JObj [(''valid'', JBool True)])
      else reply 401 invalid_token_json)"
  by (simp add: sq_verify_token_def mg_verify_token_def find_case_const)

section \<open>Submissions\<close>

lemma sq_post_ok:
  assumes "status (snd (sq_post_message d err now req db)) = 200"
  shows "messages (fst (sq_post_message d err now req db)) =
           messages db @ [sq_submitted d err now req db]"
    and "m_sender_name (sq_submitted d err now req db) =
           text_affinity (bind d (js_or (field (body req) ''sender_name'') JNull))"
    and "m_school_class (sq_submitted d err now req db) =
           text_affinity (bind d (fullClass (field (body req) ''school_year'')
                                            (field (body req) ''school_class'')))"
    and "m_share_name (sq_submitted d err now req db) =
           (if truthy (field (body req) ''share_name'') then 1 else 0)"
    and "m_share_class (sq_submitted d err now req db) =
           (if truthy (field (body req) ''share_class'') then 1 else 0)"
    and "m_share_theme (sq_submitted d err now req db) =
           (if truthy (field (body req) ''share_theme'') then 1 else 0)"
    and "m_theme_id (sq_submitted d err now req db) =
           numeric_affinity d (bind d (field (body req) ''theme_id''))"
    and "m_is_read (sq_submitted d err now req db) = 0"
  using assms
  by (auto simp: sq_submitted_def sq_post_message_def reply_def Let_def split: if_splits)

lemma new_message_fields:
  assumes "new_message m oid now sn rn sc ti ct s1 s2 s3 ip = Some doc"
  shows "cast_field (cast_string m) sn = Some (md_sender_name doc)"
    and "cast_field (cast_string m) sc = Some (md_school_class doc)"
    and "cast_field (castObjectId m) ti = Some (md_theme_id doc)"
    and "md_share_name doc = s1" and "md_share_class doc = s2" and "md_share_theme doc = s3"
    and "md_is_read doc = False" and "md_id doc = oid"
  using assms
  by (auto simp: new_message_def split: Option.bind_splits)

lemma mg_post_ok:
  assumes "status (snd (mg_post_message m err oid now req db)) = 200"
  shows "Message (fst (mg_post_message m err oid now req db)) =
           Message db @ [mg_submitted m err oid now req db]"
    and "new_message m oid now (js_or (field (body req) ''sender_name'') JNull)
           (field (body req) ''radio_name'')
           (fullClass (field (body req) ''school_year'') (field (body req) ''school_class''))
           (if truthy (field (body req) ''theme_id'') then field (body req) ''theme_id'' else JNull)
           (field (body req) ''content'')
           (truthy (field (body req) ''share_name'')) (truthy (field (body req) ''share_class''))
           (truthy (field (body req) ''share_theme'')) (client_ip req)
         = Some (mg_submitted m err oid now req db)"
  using assms
  by (auto simp: mg_submitted_def mg_post_message_def reply_def Let_def
           split: if_splits option.splits)

lemma mg_post_flags:
  assumes "status (snd (mg_post_message m err oid now req db)) = 200"
  shows "md_share_name (mg_submitted m err oid now req db) = truthy (field (body req) ''share_name'')"
    and "md_share_class (mg_submitted m err oid now req db) = truthy (field (body req) ''share_class'')"
    and "md_share_theme (mg_submitted m err oid now req db) = truthy (field (body req) ''share_theme'')"
  using new_message_fields(4,5,6) [OF mg_post_ok(2) [OF assms]] by simp_all

lemma sq_sample_ok:
  "status (snd (sq_post_message sample_sqlite3 False ''2024-05-03 10:00:00''
       (sample_request sample_submission) sample_sqlite_db)) = 200"
  by (simp add: sq_post_message_def sample_request_def sample_submission_def field_def
        sample_sqlite3_def reply_def js_or_def client_ip_def Let_def)

lemma mg_sample_ok:
  "status (snd (mg_post_message sample_mongoose False ''665000000000000000000005'' 1714730400000
       (sample_request sample_submission) sample_mongo_db)) = 200"
  by (simp add: mg_post_message_def sample_request_def sample_submission_def field_def
        sample_mongoose_def reply_def js_or_def client_ip_def Let_def new_message_def
        cast_field_def cast_string_def required_string_def fullClass_def js_and_def)

text \<open>
  C9. In a stored submission each of \<open>share_name\<close>, \<open>share_class\<close> and \<open>share_theme\<close>
  is the truthiness of the request's value: the SQLite service stores 1 for a truthy
  value and 0 otherwise, the MongoDB service stores \<open>true\<close> and \<open>false\<close>. The string
  "false" is truthy, an absent field is not.
\<close>

theorem share_flags_are_truthiness:
  "(status (snd (sq_post_message d err now req db)) = 200 \<longrightarrow>
      messages (fst (sq_post_message d err now req db)) =
        messages db @ [sq_submitted d err now req db]
      \<and> m_share_name (sq_submitted d err now req db) =
          (if truthy (field (body req) ''share_name'') then 1 else 0)
      \<and> m_share_class (sq_submitted d err now req db) =
          (if truthy (field (body req) ''share_class'') then 1 else 0)
      \<and> m_share_theme (sq_submitted d err now req db) =
          (if truthy (field (body req) ''share_theme'') then 1 else 0))
   \<and> (status (snd (mg_post_message m err' oid now' req mdb)) = 200 \<longrightarrow>
      Message (fst (mg_post_message m err' oid now' req mdb)) =
        Message mdb @ [mg_submitted m err' oid now' req mdb]
      \<and> md_share_name (mg_submitted m err' oid now' req mdb) =
          truthy (field (body req) ''share_name'')
      \<and> md_share_class (mg_submitted m err' oid now' req mdb) =
          truthy (field (body req) ''share_class'')
      \<and> md_share_theme (mg_submitted m err' oid now' req mdb) =
          truthy (field (body req) ''share_theme''))
   \<and> truthy (JStr ''false'') \<and> \<not> truthy JUndefined"
  using sq_post_ok(1,4,5,6) mg_post_ok(1) mg_post_flags by simp

theorem share_flags_are_truthiness_witness:
  "status (snd (sq_post_message sample_sqlite3 False ''2024-05-03 10:00:00''
       (sample_request sample_submission) sample_sqlite_db)) = 200
   \<and> m_share_name (sq_submitted sample_sqlite3 False ''2024-05-03 10:00:00''
       (sample_request sample_submission) sample_sqlite_db) = 1
   \<and> m_share_class (sq_submitted sample_sqlite3 False ''2024-05-03 10:00:00''
       (sample_request sample_submission) sample_sqlite_db) = 0
   \<and> m_share_theme (sq_submitted sample_sqlite3 False ''2024-05-03 10:00:00''
       (sample_request sample_submission) sample_sqlite_db) = 0
   \<and> status (snd (mg_post_message sample_mongoose False ''665000000000000000000005'' 1714730400000
       (sample_request sample_submission) sample_mongo_db)) = 200
   \<and> md_share_name (mg_submitted sample_mongoose False ''665000000000000000000005'' 1714730400000
       (sample_request sample_submission) sample_mongo_db)
   \<and> \<not> md_share_class (mg_submitted sample_mongoose False ''665000000000000000000005'' 1714730400000
       (sample_request sample_submission) sample_mongo_db)
   \<and> \<not> md_share_theme (mg_submitted sample_mongoose False ''665000000000000000000005'' 1714730400000
       (sample_request sample_submission) sample_mongo_db)"
  using sq_sample_ok mg_sample_ok
    share_flags_are_truthiness [of sample_sqlite3 False "''2024-05-03 10:00:00''"
      "sample_request sample_submission" sample_sqlite_db
      sample_mongoose False "''665000000000000000000005''" 1714730400000 sample_mongo_db]
  by (simp add: sample_request_def sample_submission_def field_def)












section \<open>Optional fields\<close>





lemma js_or_truthy: "truthy v \<Longrightarrow> js_or v w = v"
  by (simp add: js_or_def)












section \<open>Endpoints that take an id\<close>

lemma update_first_map:
  "(\<And>r. key (f r) = key r) \<Longrightarrow> map key (update_first p f rs) = map key rs"
  by (induction rs) auto

lemma update_first_none:
  "\<forall>r \<in> set rs. \<not> p r \<Longrightarrow> update_first p f rs = rs"
  by (induction rs) auto

lemma update_first_find:
  "(\<And>r. p (f r) = p r) \<Longrightarrow>
   find p (update_first p f rs) = map_option f (find p rs)"
  by (induction rs) auto

lemma update_first_twice:
  "(\<And>r. p (f r) = p r) \<Longrightarrow> (\<And>r. f (f r) = f r) \<Longrightarrow>
   update_first p f (update_first p f rs) = update_first p f rs"
  by (induction rs) auto

lemma find_None_ids: "(find (\<lambda>r. key r = k) rs = None) = (k \<notin> set (map key rs))"
  by (induction rs) auto

lemma mg_delete_invalid:
  "\<not> isValid m (JStr i) \<Longrightarrow>
   mg_delete_theme m err i db = (db, reply 400 (error_body msg_invalid_id))"
  by (simp add: mg_delete_theme_def)

lemma mg_delete_missing:
  "isValid m (JStr i) \<Longrightarrow> castObjectId m (JStr i) = Some oid \<Longrightarrow> \<not> err \<Longrightarrow>
   oid \<notin> set (map td_id (Theme db)) \<Longrightarrow>
   mg_delete_theme m err i db = (db, reply 404 (error_body msg_theme_not_found))"
  using find_None_ids [of td_id oid "Theme db"] by (simp add: mg_delete_theme_def)

lemma mg_delete_found:
  assumes "isValid m (JStr i)" and "castObjectId m (JStr i) = Some oid" and "\<not> err"
    and "oid \<in> set (map td_id (Theme db))"
  shows "snd (mg_delete_theme m err i db) = reply 200 success_json"
    and "find (\<lambda>r. td_id r = oid) (Theme (fst (mg_delete_theme m err i db))) =
           map_option (\<lambda>r. r\<lparr>td_is_active := False\<rparr>) (find (\<lambda>r. td_id r = oid) (Theme db))"
    and "map td_id (Theme (fst (mg_delete_theme m err i db))) = map td_id (Theme db)"
    and "length (Theme (fst (mg_delete_theme m err i db))) = length (Theme db)"
    and "Message (fst (mg_delete_theme m err i db)) = Message db"
proof -
  from assms(4) obtain t where t: "find (\<lambda>r. td_id r = oid) (Theme db) = Some t"
    using find_None_ids [of td_id oid "Theme db"] by (cases "find (\<lambda>r. td_id r = oid) (Theme db)") auto
  have eq: "mg_delete_theme m err i db =
      (db\<lparr>Theme := update_first (\<lambda>r. td_id r = oid) (\<lambda>r. r\<lparr>td_is_active := False\<rparr>) (Theme db)\<rparr>,
       reply 200 success_json)"
    using assms(1,2,3) t by (simp add: mg_delete_theme_def)
  show "snd (mg_delete_theme m err i db) = reply 200 success_json"
    by (simp add: eq)
  show "find (\<lambda>r. td_id r = oid) (Theme (fst (mg_delete_theme m err i db))) =
           map_option (\<lambda>r. r\<lparr>td_is_active := False\<rparr>) (find (\<lambda>r. td_id r = oid) (Theme db))"
    by (simp add: eq update_first_find)
  show "map td_id (Theme (fst (mg_delete_theme m err i db))) = map td_id (Theme db)"
    by (simp add: eq update_first_map)
  then show "length (Theme (fst (mg_delete_theme m err i db))) = length (Theme db)"
    by (metis length_map)
  show "Message (fst (mg_delete_theme m err i db)) = Message db"
    by (simp add: eq)
qed

lemma sq_delete_ok:
  assumes "\<not> err"
  shows "snd (sq_delete_theme d err i db) = reply 200 success_json"
    and "map t_id (themes (fst (sq_delete_theme d err i db))) = map t_id (themes db)"
    and "messages (fst (sq_delete_theme d err i db)) = messages db"
    and "\<forall>r \<in> set (themes (fst (sq_delete_theme d err i db))).
            id_matches d i (t_id r) \<longrightarrow> t_is_active r = 0"
    and "\<forall>r \<in> set (themes db). \<not> id_matches d i (t_id r) \<Longrightarrow>
            fst (sq_delete_theme d err i db) = db"
  using assms
  by (auto simp: sq_delete_theme_def map_idI cong: map_cong)

lemma update_first_frame:
  "list_all2 (\<lambda>r r'. r' = r \<or> p r \<and> r' = f r) rs (update_first p f rs)"
  by (induction rs) (auto simp: list.rel_refl)

lemma mg_delete_fst:
  assumes "isValid m (JStr i)" and "castObjectId m (JStr i) = Some oid" and "\<not> err"
    and "oid \<in> set (map td_id (Theme db))"
  shows "fst (mg_delete_theme m err i db) =
     db\<lparr>Theme := update_first (\<lambda>r. td_id r = oid) (\<lambda>r. r\<lparr>td_is_active := False\<rparr>) (Theme db)\<rparr>"
proof -
  from assms(4) obtain t where "find (\<lambda>r. td_id r = oid) (Theme db) = Some t"
    using find_None_ids [of td_id oid "Theme db"]
    by (cases "find (\<lambda>r. td_id r = oid) (Theme db)") auto
  with assms(1,2,3) show ?thesis
    by (simp add: mg_delete_theme_def)
qed

lemma mg_delete_frame:
  assumes "isValid m (JStr i)" and "castObjectId m (JStr i) = Some oid" and "\<not> err"
    and "oid \<in> set (map td_id (Theme db))"
  shows "list_all2 (\<lambda>r r'. r' = r \<or> td_id r = oid \<and> r' = r\<lparr>td_is_active := False\<rparr>)
     (Theme db) (Theme (fst (mg_delete_theme m err i db)))"
  by (simp add: mg_delete_fst [OF assms] update_first_frame)

lemma sq_delete_eq:
  "\<not> err \<Longrightarrow>
   fst (sq_delete_theme d err i db) =
     db\<lparr>themes := map (\<lambda>r. if id_matches d i (t_id r) then r\<lparr>t_is_active := 0\<rparr> else r)
                    (themes db)\<rparr>"
  by (simp add: sq_delete_theme_def)

lemma sample_isValid:
  "\<not> isValid sample_mongoose (JStr ''abc'')"
  "isValid sample_mongoose (JStr ''665000000000000000000001'')"
  "isValid sample_mongoose (JStr ''665000000000000000000002'')"
  "isValid sample_mongoose (JStr ''665000000000000000000009'')"
  "castObjectId sample_mongoose (JStr ''665000000000000000000001'') = Some ''665000000000000000000001''"
  "castObjectId sample_mongoose (JStr ''665000000000000000000002'') = Some ''665000000000000000000002''"
  "castObjectId sample_mongoose (JStr ''665000000000000000000009'') = Some ''665000000000000000000009''"
  by (simp_all add: sample_mongoose_def hex24_def)

lemma sample_theme_ids:
  "map td_id (Theme sample_mongo_db) = [''665000000000000000000001'']"
  "map t_id (themes sample_sqlite_db) = [1]"
  by (simp_all add: sample_mongo_db_def sample_sqlite_db_def)

lemma sample_id_matches:
  "id_matches sample_sqlite3 ''1'' n = (n = 1)"
  "id_matches sample_sqlite3 ''999'' n = (n = 999)"
  "\<not> id_matches sample_sqlite3 ''abc'' n"
  by (auto simp: id_matches_def sample_sqlite3_def decimal_text_def)

lemma sample_message_ids:
  "map md_id (Message sample_mongo_db) = [''665000000000000000000002'']"
  "map m_id (messages sample_sqlite_db) = [1]"
  by (simp_all add: sample_mongo_db_def sample_sqlite_db_def)

text \<open>
  C4, as amended. MongoDB service: the request is answered 400 when
  \<open>ObjectId.isValid\<close> rejects the id, and 404 when the id is valid and cast to an
  ObjectId but no theme has it; otherwise, the storage layer not failing, the theme with
  that id gets \<open>is_active = false\<close> and the answer is success. SQLite service: no id
  is validated and no missing theme is reported; whenever the UPDATE does not fail the
  answer is success, every row the id matches is inactive afterwards, and when the id
  matches no row the store is unchanged. In both services the theme rows (their ids) and
  all messages remain, and the store afterwards is the store before with that one change:
  in the MongoDB service the first theme with the id has \<open>is_active = false\<close> and
  every other theme is as it was, in the SQLite service exactly the rows the id matches
  have \<open>is_active = 0\<close>.
\<close>

theorem deactivate_theme:
  "(\<not> isValid m (JStr i) \<longrightarrow>
      mg_delete_theme m err i mdb = (mdb, reply 400 (error_body msg_invalid_id)))
   \<and> (isValid m (JStr i) \<and> castObjectId m (JStr i) = Some oid \<and> \<not> err
        \<and> oid \<notin> set (map td_id (Theme mdb)) \<longrightarrow>
      mg_delete_theme m err i mdb = (mdb, reply 404 (error_body msg_theme_not_found)))
   \<and> (isValid m (JStr i) \<and> castObjectId m (JStr i) = Some oid \<and> \<not> err
        \<and> oid \<in> set (map td_id (Theme mdb)) \<longrightarrow>
      snd (mg_delete_theme m err i mdb) = reply 200 success_json
      \<and> find (\<lambda>r. td_id r = oid) (Theme (fst (mg_delete_theme m err i mdb))) =
          map_option (\<lambda>r. r\<lparr>td_is_active := False\<rparr>) (find (\<lambda>r. td_id r = oid) (Theme mdb))
      \<and> map td_id (Theme (fst (mg_delete_theme m err i mdb))) = map td_id (Theme mdb)
      \<and> Message (fst (mg_delete_theme m err i mdb)) = Message mdb
      \<and> fst (mg_delete_theme m err i mdb) =
          mdb\<lparr>Theme := update_first (\<lambda>r. td_id r = oid) (\<lambda>r. r\<lparr>td_is_active := False\<rparr>) (Theme mdb)\<rparr>
      \<and> list_all2 (\<lambda>r r'. r' = r \<or> td_id r = oid \<and> r' = r\<lparr>td_is_active := False\<rparr>)
            (Theme mdb) (Theme (fst (mg_delete_theme m err i mdb))))
   \<and> (\<not> serr \<longrightarrow>
      snd (sq_delete_theme d serr i db) = reply 200 success_json
      \<and> (\<forall>r \<in> set (themes (fst (sq_delete_theme d serr i db))).
            id_matches d i (t_id r) \<longrightarrow> t_is_active r = 0)
      \<and> ((\<forall>r \<in> set (themes db). \<not> id_matches d i (t_id r)) \<longrightarrow>
            fst (sq_delete_theme d serr i db) = db)
      \<and> map t_id (themes (fst (sq_delete_theme d serr i db))) = map t_id (themes db)
      \<and> messages (fst (sq_delete_theme d serr i db)) = messages db
      \<and> fst (sq_delete_theme d serr i db) =
          db\<lparr>themes := map (\<lambda>r. if id_matches d i (t_id r) then r\<lparr>t_is_active := 0\<rparr> else r)
                         (themes db)\<rparr>)"
proof -
  have A: "\<not> isValid m (JStr i) \<longrightarrow>
      mg_delete_theme m err i mdb = (mdb, reply 400 (error_body msg_invalid_id))"
    using mg_delete_invalid by blast
  have B: "isValid m (JStr i) \<and> castObjectId m (JStr i) = Some oid \<and> \<not> err
        \<and> oid \<notin> set (map td_id (Theme mdb)) \<longrightarrow>
      mg_delete_theme m err i mdb = (mdb, reply 404 (error_body msg_theme_not_found))"
    using mg_delete_missing by blast
  have C: "isValid m (JStr i) \<and> castObjectId m (JStr i) = Some oid \<and> \<not> err
        \<and> oid \<in> set (map td_id (Theme mdb)) \<longrightarrow>
      snd (mg_delete_theme m err i mdb) = reply 200 success_json
      \<and> find (\<lambda>r. td_id r = oid) (Theme (fst (mg_delete_theme m err i mdb))) =
          map_option (\<lambda>r. r\<lparr>td_is_active := False\<rparr>) (find (\<lambda>r. td_id r = oid) (Theme mdb))
      \<and> map td_id (Theme (fst (mg_delete_theme m err i mdb))) = map td_id (Theme mdb)
      \<and> Message (fst (mg_delete_theme m err i mdb)) = Message mdb
      \<and> fst (mg_delete_theme m err i mdb) =
          mdb\<lparr>Theme := update_first (\<lambda>r. td_id r = oid) (\<lambda>r. r\<lparr>td_is_active := False\<rparr>) (Theme mdb)\<rparr>
      \<and> list_all2 (\<lambda>r r'. r' = r \<or> td_id r = oid \<and> r' = r\<lparr>td_is_active := False\<rparr>)
            (Theme mdb) (Theme (fst (mg_delete_theme m err i mdb)))"
    using mg_delete_found(1,2,3,5) [where m = m and i = i and oid = oid and err = err and db = mdb]
      mg_delete_fst [where m = m and i = i and oid = oid and err = err and db = mdb]
      mg_delete_frame [where m = m and i = i and oid = oid and err = err and db = mdb]
    by blast
  have D: "\<not> serr \<longrightarrow>
      snd (sq_delete_theme d serr i db) = reply 200 success_json
      \<and> (\<forall>r \<in> set (themes (fst (sq_delete_theme d serr i db))).
            id_matches d i (t_id r) \<longrightarrow> t_is_active r = 0)
      \<and> ((\<forall>r \<in> set (themes db). \<not> id_matches d i (t_id r)) \<longrightarrow>
            fst (sq_delete_theme d serr i db) = db)
      \<and> map t_id (themes (fst (sq_delete_theme d serr i db))) = map t_id (themes db)
      \<and> messages (fst (sq_delete_theme d serr i db)) = messages db
      \<and> fst (sq_delete_theme d serr i db) =
          db\<lparr>themes := map (\<lambda>r. if id_matches d i (t_id r) then r\<lparr>t_is_active := 0\<rparr> else r)
                         (themes db)\<rparr>"
    using sq_delete_ok [where err = serr and d = d and i = i and db = db]
      sq_delete_eq [where err = serr and d = d and i = i and db = db]
    by blast
  show ?thesis
    using A B C D by (simp only: simp_thms)
qed

theorem deactivate_theme_witness:
  "\<not> isValid sample_mongoose (JStr ''abc'')
   \<and> mg_delete_theme sample_mongoose False ''abc'' sample_mongo_db =
       (sample_mongo_db, reply 400 (error_body msg_invalid_id))
   \<and> isValid sample_mongoose (JStr ''665000000000000000000009'')
   \<and> ''665000000000000000000009'' \<notin> set (map td_id (Theme sample_mongo_db))
   \<and> mg_delete_theme sample_mongoose False ''665000000000000000000009'' sample_mongo_db =
       (sample_mongo_db, reply 404 (error_body msg_theme_not_found))
   \<and> isValid sample_mongoose (JStr ''665000000000000000000001'')
   \<and> ''665000000000000000000001'' \<in> set (map td_id (Theme sample_mongo_db))
   \<and> snd (mg_delete_theme sample_mongoose False ''665000000000000000000001'' sample_mongo_db) =
       reply 200 success_json
   \<and> map_option td_is_active (find (\<lambda>r. td_id r = ''665000000000000000000001'')
        (Theme (fst (mg_delete_theme sample_mongoose False ''665000000000000000000001''
           sample_mongo_db)))) = Some False
   \<and> Message (fst (mg_delete_theme sample_mongoose False ''665000000000000000000001''
           sample_mongo_db)) = Message sample_mongo_db
   \<and> snd (sq_delete_theme sample_sqlite3 False ''1'' sample_sqlite_db) = reply 200 success_json
   \<and> map t_id (themes (fst (sq_delete_theme sample_sqlite3 False ''1'' sample_sqlite_db))) = [1]
   \<and> messages (fst (sq_delete_theme sample_sqlite3 False ''1'' sample_sqlite_db)) =
       messages sample_sqlite_db
   \<and> fst (sq_delete_theme sample_sqlite3 False ''999'' sample_sqlite_db) = sample_sqlite_db
   \<and> map (\<lambda>r. (td_id r, td_is_active r))
        (Theme (fst (mg_delete_theme sample_mongoose False ''665000000000000000000001''
           sample_mongo_db))) = [(''665000000000000000000001'', False)]
   \<and> map (\<lambda>r. (t_id r, t_is_active r))
        (themes (fst (sq_delete_theme sample_sqlite3 False ''1'' sample_sqlite_db))) = [(1, 0)]"
proof -
  have nf: "\<not> False"
    by simp
  have hb: "isValid sample_mongoose (JStr ''665000000000000000000009'')
     \<and> castObjectId sample_mongoose (JStr ''665000000000000000000009'') =
         Some ''665000000000000000000009'' \<and> \<not> False
     \<and> ''665000000000000000000009'' \<notin> set (map td_id (Theme sample_mongo_db))"
    using sample_isValid sample_theme_ids(1) by simp
  have hc: "isValid sample_mongoose (JStr ''665000000000000000000001'')
     \<and> castObjectId sample_mongoose (JStr ''665000000000000000000001'') =
         Some ''665000000000000000000001'' \<and> \<not> False
     \<and> ''665000000000000000000001'' \<in> set (map td_id (Theme sample_mongo_db))"
    using sample_isValid sample_theme_ids(1) by simp
  note a = deactivate_theme [of sample_mongoose "''abc''" False sample_mongo_db
      "''abc''" False sample_sqlite3 sample_sqlite_db,
      THEN conjunct1, THEN mp, OF sample_isValid(1)]
  note b = deactivate_theme [of sample_mongoose "''665000000000000000000009''" False sample_mongo_db
      "''665000000000000000000009''" False sample_sqlite3 sample_sqlite_db,
      THEN conjunct2, THEN conjunct1, THEN mp, OF hb]
  note c = deactivate_theme [of sample_mongoose "''665000000000000000000001''" False sample_mongo_db
      "''665000000000000000000001''" False sample_sqlite3 sample_sqlite_db,
      THEN conjunct2, THEN conjunct2, THEN conjunct1, THEN mp, OF hc]
  note d = deactivate_theme [of sample_mongoose "''1''" False sample_mongo_db
      "''1''" False sample_sqlite3 sample_sqlite_db,
      THEN conjunct2, THEN conjunct2, THEN conjunct2, THEN mp, OF nf]
  note e = deactivate_theme [of sample_mongoose "''999''" False sample_mongo_db
      "''999''" False sample_sqlite3 sample_sqlite_db,
      THEN conjunct2, THEN conjunct2, THEN conjunct2, THEN mp, OF nf]
  have f: "find (\<lambda>r. td_id r = ''665000000000000000000001'') (Theme sample_mongo_db) =
      Some (hd (Theme sample_mongo_db))"
    by (simp add: sample_mongo_db_def)
  have g: "\<forall>r \<in> set (themes sample_sqlite_db). \<not> id_matches sample_sqlite3 ''999'' (t_id r)"
    by (simp add: sample_sqlite_db_def sample_id_matches)
  have A: "\<not> isValid sample_mongoose (JStr ''abc'')
     \<and> mg_delete_theme sample_mongoose False ''abc'' sample_mongo_db =
         (sample_mongo_db, reply 400 (error_body msg_invalid_id))"
    using a sample_isValid(1) by simp
  have B: "isValid sample_mongoose (JStr ''665000000000000000000009'')
     \<and> ''665000000000000000000009'' \<notin> set (map td_id (Theme sample_mongo_db))
     \<and> mg_delete_theme sample_mongoose False ''665000000000000000000009'' sample_mongo_db =
         (sample_mongo_db, reply 404 (error_body msg_theme_not_found))"
    using b hb by simp
  have C: "isValid sample_mongoose (JStr ''665000000000000000000001'')
     \<and> ''665000000000000000000001'' \<in> set (map td_id (Theme sample_mongo_db))
     \<and> snd (mg_delete_theme sample_mongoose False ''665000000000000000000001''
          sample_mongo_db) = reply 200 success_json
     \<and> map_option td_is_active (find (\<lambda>r. td_id r = ''665000000000000000000001'')
          (Theme (fst (mg_delete_theme sample_mongoose False ''665000000000000000000001''
             sample_mongo_db)))) = Some False
     \<and> Message (fst (mg_delete_theme sample_mongoose False ''665000000000000000000001''
             sample_mongo_db)) = Message sample_mongo_db"
    using c [THEN conjunct1] c [THEN conjunct2, THEN conjunct1] c [THEN conjunct2, THEN conjunct2, THEN conjunct2, THEN conjunct1] f hc by simp
  have D: "snd (sq_delete_theme sample_sqlite3 False ''1'' sample_sqlite_db) =
       reply 200 success_json
     \<and> map t_id (themes (fst (sq_delete_theme sample_sqlite3 False ''1'' sample_sqlite_db))) =
         [1]
     \<and> messages (fst (sq_delete_theme sample_sqlite3 False ''1'' sample_sqlite_db)) =
         messages sample_sqlite_db"
    using d [THEN conjunct1] d [THEN conjunct2, THEN conjunct2, THEN conjunct2, THEN conjunct1] d [THEN conjunct2, THEN conjunct2, THEN conjunct2, THEN conjunct2, THEN conjunct1] sample_theme_ids(2) by simp
  have E: "fst (sq_delete_theme sample_sqlite3 False ''999'' sample_sqlite_db) =
       sample_sqlite_db"
    using e [THEN conjunct2, THEN conjunct2, THEN conjunct1, THEN mp, OF g] by simp
  have F: "map (\<lambda>r. (td_id r, td_is_active r))
        (Theme (fst (mg_delete_theme sample_mongoose False ''665000000000000000000001''
           sample_mongo_db))) = [(''665000000000000000000001'', False)]"
    unfolding c [THEN conjunct2, THEN conjunct2, THEN conjunct2, THEN conjunct2, THEN conjunct1] by (simp add: sample_mongo_db_def)
  have G: "map (\<lambda>r. (t_id r, t_is_active r))
        (themes (fst (sq_delete_theme sample_sqlite3 False ''1'' sample_sqlite_db))) = [(1, 0)]"
    unfolding d [THEN conjunct2, THEN conjunct2, THEN conjunct2, THEN conjunct2, THEN conjunct2] by (simp add: sample_sqlite_db_def sample_id_matches)
  show ?thesis
    using A B C D E F G by (simp only: simp_thms)
qed

text \<open>
  C4 as stated fails on the SQLite service: deactivating theme 999, which does not
  exist, and deactivating "abc", which is no rowid, are both answered with success.
\<close>

theorem sqlite_deactivate_counterexample:
  "sq_delete_theme sample_sqlite3 False ''999'' sample_sqlite_db =
     (sample_sqlite_db, reply 200 success_json)
   \<and> 999 \<notin> set (map t_id (themes sample_sqlite_db))
   \<and> sq_delete_theme sample_sqlite3 False ''abc'' sample_sqlite_db =
     (sample_sqlite_db, reply 200 success_json)"
  by (simp add: sq_delete_theme_def sample_sqlite_db_def sample_sqlite3_def id_matches_def
        decimal_text_def)
lemma mg_mark_read_invalid:
  "\<not> isValid m (JStr i) \<Longrightarrow>
   mg_mark_read m err i db = (db, reply 400 (error_body msg_invalid_id))"
  by (simp add: mg_mark_read_def)

lemma mg_mark_read_eq:
  "isValid m (JStr i) \<Longrightarrow> castObjectId m (JStr i) = Some oid \<Longrightarrow> \<not> err \<Longrightarrow>
   mg_mark_read m err i db =
     (db\<lparr>Message := update_first (\<lambda>r. md_id r = oid) (\<lambda>r. r\<lparr>md_is_read := True\<rparr>) (Message db)\<rparr>,
      reply 200 success_json)"
  by (simp add: mg_mark_read_def)

lemma mg_mark_read_ok:
  assumes "isValid m (JStr i)" and "castObjectId m (JStr i) = Some oid" and "\<not> err"
  shows "snd (mg_mark_read m err i db) = reply 200 success_json"
    and "find (\<lambda>r. md_id r = oid) (Message (fst (mg_mark_read m err i db))) =
           map_option (\<lambda>r. r\<lparr>md_is_read := True\<rparr>) (find (\<lambda>r. md_id r = oid) (Message db))"
    and "oid \<notin> set (map md_id (Message db)) \<Longrightarrow> fst (mg_mark_read m err i db) = db"
    and "mg_mark_read m err i (fst (mg_mark_read m err i db)) = mg_mark_read m err i db"
    and "map md_id (Message (fst (mg_mark_read m err i db))) = map md_id (Message db)"
proof -
  note eq = mg_mark_read_eq [OF assms]
  show "snd (mg_mark_read m err i db) = reply 200 success_json"
    by (simp add: eq)
  show "find (\<lambda>r. md_id r = oid) (Message (fst (mg_mark_read m err i db))) =
           map_option (\<lambda>r. r\<lparr>md_is_read := True\<rparr>) (find (\<lambda>r. md_id r = oid) (Message db))"
    by (simp add: eq update_first_find)
  show "fst (mg_mark_read m err i db) = db" if "oid \<notin> set (map md_id (Message db))"
  proof -
    from that have "\<forall>r \<in> set (Message db). \<not> md_id r = oid"
      by auto
    then show ?thesis
      by (simp add: eq update_first_none)
  qed
  show "mg_mark_read m err i (fst (mg_mark_read m err i db)) = mg_mark_read m err i db"
    by (simp add: eq update_first_twice)
  show "map md_id (Message (fst (mg_mark_read m err i db))) = map md_id (Message db)"
    by (simp add: eq update_first_map)
qed

lemma sq_mark_read_ok:
  assumes "\<not> err"
  shows "snd (sq_mark_read d err i db) = reply 200 success_json"
    and "\<forall>r \<in> set (messages (fst (sq_mark_read d err i db))).
            id_matches d i (m_id r) \<longrightarrow> m_is_read r = 1"
    and "\<forall>r \<in> set (messages db). \<not> id_matches d i (m_id r) \<Longrightarrow>
            fst (sq_mark_read d err i db) = db"
    and "sq_mark_read d err i (fst (sq_mark_read d err i db)) = sq_mark_read d err i db"
    and "map m_id (messages (fst (sq_mark_read d err i db))) = map m_id (messages db)"
  using assms
  by (auto simp: sq_mark_read_def map_idI cong: map_cong)

lemma mg_mark_read_fst:
  "isValid m (JStr i) \<Longrightarrow> castObjectId m (JStr i) = Some oid \<Longrightarrow> \<not> err \<Longrightarrow>
   fst (mg_mark_read m err i db) =
     db\<lparr>Message := update_first (\<lambda>r. md_id r = oid) (\<lambda>r. r\<lparr>md_is_read := True\<rparr>) (Message db)\<rparr>"
  by (simp add: mg_mark_read_eq)

lemma mg_mark_read_frame:
  "isValid m (JStr i) \<Longrightarrow> castObjectId m (JStr i) = Some oid \<Longrightarrow> \<not> err \<Longrightarrow>
   list_all2 (\<lambda>r r'. r' = r \<or> md_id r = oid \<and> r' = r\<lparr>md_is_read := True\<rparr>)
     (Message db) (Message (fst (mg_mark_read m err i db)))"
  by (simp add: mg_mark_read_eq update_first_frame)

lemma sq_mark_read_eq:
  "\<not> err \<Longrightarrow>
   fst (sq_mark_read d err i db) =
     db\<lparr>messages := map (\<lambda>r. if id_matches d i (m_id r) then r\<lparr>m_is_read := 1\<rparr> else r)
                      (messages db)\<rparr>"
  by (simp add: sq_mark_read_def)

text \<open>
  C8, as amended. MongoDB service: the request is answered 400 when \<open>ObjectId.isValid\<close>
  rejects the id; for a valid id that casts, the storage layer not failing, the answer is
  success, the message with that id (if any) has \<open>is_read = true\<close>, an unknown id
  leaves the store unchanged, and a repeated call changes nothing more. SQLite service:
  no id is validated; whenever the UPDATE does not fail the answer is success, every
  row the id matches is read afterwards, an id that matches no row leaves the store
  unchanged, and a repeated call changes nothing more. In both services the store
  afterwards is the store before with that one change: in the MongoDB service the first
  message with the id has \<open>is_read = true\<close> and every other message is as it was, in
  the SQLite service exactly the rows the id matches have \<open>is_read = 1\<close>; no message is
  added or removed.
\<close>

theorem mark_read:
  "(\<not> isValid m (JStr i) \<longrightarrow>
      mg_mark_read m err i mdb = (mdb, reply 400 (error_body msg_invalid_id)))
   \<and> (isValid m (JStr i) \<and> castObjectId m (JStr i) = Some oid \<and> \<not> err \<longrightarrow>
      snd (mg_mark_read m err i mdb) = reply 200 success_json
      \<and> find (\<lambda>r. md_id r = oid) (Message (fst (mg_mark_read m err i mdb))) =
          map_option (\<lambda>r. r\<lparr>md_is_read := True\<rparr>) (find (\<lambda>r. md_id r = oid) (Message mdb))
      \<and> (oid \<notin> set (map md_id (Message mdb)) \<longrightarrow> fst (mg_mark_read m err i mdb) = mdb)
      \<and> mg_mark_read m err i (fst (mg_mark_read m err i mdb)) = mg_mark_read m err i mdb
      \<and> fst (mg_mark_read m err i mdb) =
          mdb\<lparr>Message := update_first (\<lambda>r. md_id r = oid) (\<lambda>r. r\<lparr>md_is_read := True\<rparr>) (Message mdb)\<rparr>
      \<and> map md_id (Message (fst (mg_mark_read m err i mdb))) = map md_id (Message mdb)
      \<and> list_all2 (\<lambda>r r'. r' = r \<or> md_id r = oid \<and> r' = r\<lparr>md_is_read := True\<rparr>)
            (Message mdb) (Message (fst (mg_mark_read m err i mdb))))
   \<and> (\<not> serr \<longrightarrow>
      snd (sq_mark_read d serr i db) = reply 200 success_json
      \<and> (\<forall>r \<in> set (messages (fst (sq_mark_read d serr i db))).
            id_matches d i (m_id r) \<longrightarrow> m_is_read r = 1)
      \<and> ((\<forall>r \<in> set (messages db). \<not> id_matches d i (m_id r)) \<longrightarrow>
            fst (sq_mark_read d serr i db) = db)
      \<and> sq_mark_read d serr i (fst (sq_mark_read d serr i db)) = sq_mark_read d serr i db
      \<and> fst (sq_mark_read d serr i db) =
          db\<lparr>messages := map (\<lambda>r. if id_matches d i (m_id r) then r\<lparr>m_is_read := 1\<rparr> else r)
                           (messages db)\<rparr>
      \<and> map m_id (messages (fst (sq_mark_read d serr i db))) = map m_id (messages db))"
proof -
  have A: "\<not> isValid m (JStr i) \<longrightarrow>
      mg_mark_read m err i mdb = (mdb, reply 400 (error_body msg_invalid_id))"
    using mg_mark_read_invalid by blast
  have B: "isValid m (JStr i) \<and> castObjectId m (JStr i) = Some oid \<and> \<not> err \<longrightarrow>
      snd (mg_mark_read m err i mdb) = reply 200 success_json
      \<and> find (\<lambda>r. md_id r = oid) (Message (fst (mg_mark_read m err i mdb))) =
          map_option (\<lambda>r. r\<lparr>md_is_read := True\<rparr>) (find (\<lambda>r. md_id r = oid) (Message mdb))
      \<and> (oid \<notin> set (map md_id (Message mdb)) \<longrightarrow> fst (mg_mark_read m err i mdb) = mdb)
      \<and> mg_mark_read m err i (fst (mg_mark_read m err i mdb)) = mg_mark_read m err i mdb
      \<and> fst (mg_mark_read m err i mdb) =
          mdb\<lparr>Message := update_first (\<lambda>r. md_id r = oid) (\<lambda>r. r\<lparr>md_is_read := True\<rparr>) (Message mdb)\<rparr>
      \<and> map md_id (Message (fst (mg_mark_read m err i mdb))) = map md_id (Message mdb)
      \<and> list_all2 (\<lambda>r r'. r' = r \<or> md_id r = oid \<and> r' = r\<lparr>md_is_read := True\<rparr>)
            (Message mdb) (Message (fst (mg_mark_read m err i mdb)))"
    using mg_mark_read_ok(1,2,3,4,5) [where m = m and i = i and oid = oid and err = err and db = mdb]
      mg_mark_read_fst [where m = m and i = i and oid = oid and err = err and db = mdb]
      mg_mark_read_frame [where m = m and i = i and oid = oid and err = err and db = mdb]
    by blast
  have C: "\<not> serr \<longrightarrow>
      snd (sq_mark_read d serr i db) = reply 200 success_json
      \<and> (\<forall>r \<in> set (messages (fst (sq_mark_read d serr i db))).
            id_matches d i (m_id r) \<longrightarrow> m_is_read r = 1)
      \<and> ((\<forall>r \<in> set (messages db). \<not> id_matches d i (m_id r)) \<longrightarrow>
            fst (sq_mark_read d serr i db) = db)
      \<and> sq_mark_read d serr i (fst (sq_mark_read d serr i db)) = sq_mark_read d serr i db
      \<and> fst (sq_mark_read d serr i db) =
          db\<lparr>messages := map (\<lambda>r. if id_matches d i (m_id r) then r\<lparr>m_is_read := 1\<rparr> else r)
                           (messages db)\<rparr>
      \<and> map m_id (messages (fst (sq_mark_read d serr i db))) = map m_id (messages db)"
    using sq_mark_read_ok(1,2,3,4,5) [where err = serr and d = d and i = i and db = db]
      sq_mark_read_eq [where err = serr and d = d and i = i and db = db]
    by blast
  show ?thesis
    using A B C by (simp only: simp_thms)
qed

theorem mark_read_witness:
  "\<not> isValid sample_mongoose (JStr ''abc'')
   \<and> mg_mark_read sample_mongoose False ''abc'' sample_mongo_db =
       (sample_mongo_db, reply 400 (error_body msg_invalid_id))
   \<and> isValid sample_mongoose (JStr ''665000000000000000000002'')
   \<and> snd (mg_mark_read sample_mongoose False ''665000000000000000000002'' sample_mongo_db) =
       reply 200 success_json
   \<and> map_option md_is_read (find (\<lambda>r. md_id r = ''665000000000000000000002'')
        (Message (fst (mg_mark_read sample_mongoose False ''665000000000000000000002''
           sample_mongo_db)))) = Some True
   \<and> isValid sample_mongoose (JStr ''665000000000000000000009'')
   \<and> ''665000000000000000000009'' \<notin> set (map md_id (Message sample_mongo_db))
   \<and> mg_mark_read sample_mongoose False ''665000000000000000000009'' sample_mongo_db =
       (sample_mongo_db, reply 200 success_json)
   \<and> snd (sq_mark_read sample_sqlite3 False ''1'' sample_sqlite_db) = reply 200 success_json
   \<and> sq_mark_read sample_sqlite3 False ''1''
        (fst (sq_mark_read sample_sqlite3 False ''1'' sample_sqlite_db)) =
       sq_mark_read sample_sqlite3 False ''1'' sample_sqlite_db
   \<and> sq_mark_read sample_sqlite3 False ''999'' sample_sqlite_db =
       (sample_sqlite_db, reply 200 success_json)
   \<and> map (\<lambda>r. (md_id r, md_is_read r))
        (Message (fst (mg_mark_read sample_mongoose False ''665000000000000000000002''
           sample_mongo_db))) = [(''665000000000000000000002'', True)]
   \<and> map (\<lambda>r. (m_id r, m_is_read r))
        (messages (fst (sq_mark_read sample_sqlite3 False ''1'' sample_sqlite_db))) = [(1, 1)]"
proof -
  have nf: "\<not> False"
    by simp
  have hb: "isValid sample_mongoose (JStr ''665000000000000000000002'')
     \<and> castObjectId sample_mongoose (JStr ''665000000000000000000002'') =
         Some ''665000000000000000000002'' \<and> \<not> False"
    using sample_isValid by simp
  have hc: "isValid sample_mongoose (JStr ''665000000000000000000009'')
     \<and> castObjectId sample_mongoose (JStr ''665000000000000000000009'') =
         Some ''665000000000000000000009'' \<and> \<not> False"
    using sample_isValid by simp
  note a = mark_read [of sample_mongoose "''abc''" False sample_mongo_db
      "''abc''" False sample_sqlite3 sample_sqlite_db,
      THEN conjunct1, THEN mp, OF sample_isValid(1)]
  note b = mark_read [of sample_mongoose "''665000000000000000000002''" False sample_mongo_db
      "''665000000000000000000002''" False sample_sqlite3 sample_sqlite_db,
      THEN conjunct2, THEN conjunct1, THEN mp, OF hb]
  note c = mark_read [of sample_mongoose "''665000000000000000000009''" False sample_mongo_db
      "''665000000000000000000009''" False sample_sqlite3 sample_sqlite_db,
      THEN conjunct2, THEN conjunct1, THEN mp, OF hc]
  note d = mark_read [of sample_mongoose "''1''" False sample_mongo_db
      "''1''" False sample_sqlite3 sample_sqlite_db,
      THEN conjunct2, THEN conjunct2, THEN mp, OF nf]
  note e = mark_read [of sample_mongoose "''999''" False sample_mongo_db
      "''999''" False sample_sqlite3 sample_sqlite_db,
      THEN conjunct2, THEN conjunct2, THEN mp, OF nf]
  have f: "find (\<lambda>r. md_id r = ''665000000000000000000002'') (Message sample_mongo_db) =
      Some (hd (Message sample_mongo_db))"
    by (simp add: sample_mongo_db_def)
  have g: "\<forall>r \<in> set (messages sample_sqlite_db). \<not> id_matches sample_sqlite3 ''999'' (m_id r)"
    by (simp add: sample_sqlite_db_def sample_id_matches)
  have A: "\<not> isValid sample_mongoose (JStr ''abc'')
     \<and> mg_mark_read sample_mongoose False ''abc'' sample_mongo_db =
         (sample_mongo_db, reply 400 (error_body msg_invalid_id))"
    using a sample_isValid(1) by simp
  have B: "isValid sample_mongoose (JStr ''665000000000000000000002'')
     \<and> snd (mg_mark_read sample_mongoose False ''665000000000000000000002'' sample_mongo_db) =
         reply 200 success_json
     \<and> map_option md_is_read (find (\<lambda>r. md_id r = ''665000000000000000000002'')
          (Message (fst (mg_mark_read sample_mongoose False ''665000000000000000000002''
             sample_mongo_db)))) = Some True"
    using b [THEN conjunct1] b [THEN conjunct2, THEN conjunct1] f hb by simp
  have C: "isValid sample_mongoose (JStr ''665000000000000000000009'')
     \<and> ''665000000000000000000009'' \<notin> set (map md_id (Message sample_mongo_db))
     \<and> mg_mark_read sample_mongoose False ''665000000000000000000009'' sample_mongo_db =
         (sample_mongo_db, reply 200 success_json)"
    using c [THEN conjunct1] c [THEN conjunct2, THEN conjunct2, THEN conjunct1] hc sample_message_ids(1) by (simp add: prod_eq_iff)
  have D: "snd (sq_mark_read sample_sqlite3 False ''1'' sample_sqlite_db) = reply 200 success_json
     \<and> sq_mark_read sample_sqlite3 False ''1''
          (fst (sq_mark_read sample_sqlite3 False ''1'' sample_sqlite_db)) =
         sq_mark_read sample_sqlite3 False ''1'' sample_sqlite_db"
    using d [THEN conjunct1] d [THEN conjunct2, THEN conjunct2, THEN conjunct2, THEN conjunct1] by simp
  have E: "sq_mark_read sample_sqlite3 False ''999'' sample_sqlite_db =
       (sample_sqlite_db, reply 200 success_json)"
    using e [THEN conjunct1] e [THEN conjunct2, THEN conjunct2, THEN conjunct1, THEN mp, OF g] by (simp add: prod_eq_iff)
  have F: "map (\<lambda>r. (md_id r, md_is_read r))
        (Message (fst (mg_mark_read sample_mongoose False ''665000000000000000000002''
           sample_mongo_db))) = [(''665000000000000000000002'', True)]"
    unfolding b [THEN conjunct2, THEN conjunct2, THEN conjunct2, THEN conjunct2, THEN conjunct1] by (simp add: sample_mongo_db_def)
  have G: "map (\<lambda>r. (m_id r, m_is_read r))
        (messages (fst (sq_mark_read sample_sqlite3 False ''1'' sample_sqlite_db))) = [(1, 1)]"
    unfolding d [THEN conjunct2, THEN conjunct2, THEN conjunct2, THEN conjunct2, THEN conjunct1] by (simp add: sample_sqlite_db_def sample_id_matches)
  show ?thesis
    using A B C D E F G by (simp only: simp_thms)
qed

text \<open>
  C8 as stated fails on the SQLite service: marking "abc", which is no rowid, is
  answered with success instead of 400.
\<close>

theorem sqlite_mark_read_counterexample:
  "sq_mark_read sample_sqlite3 False ''abc'' sample_sqlite_db =
     (sample_sqlite_db, reply 200 success_json)"
  by (simp add: sq_mark_read_def sample_sqlite_db_def sample_sqlite3_def id_matches_def
        decimal_text_def)

section \<open>Validation of a submission\<close>











section \<open>The two services side by side\<close>








text \<open>
  C3 as stated fails: on empty stores, deactivating theme "abc" and marking message
  "abc" read are answered with success by the SQLite service and with 400 by the
  MongoDB service. With no theme stored the MongoDB service never answers 200 to a
  deactivation, whatever \<open>isValid\<close> says, while the SQLite service does.
\<close>

lemma mg_delete_without_themes:
  "Theme db = [] \<Longrightarrow> status (snd (mg_delete_theme m err i db)) \<in> {400, 404, 500}"
  by (simp add: mg_delete_theme_def reply_def split: option.splits)

section \<open>Theme listings\<close>

text \<open>
  C6 at the sample stores, for a request at 2024-05-10T09:00:00Z, the last day of the
  sample theme: the MongoDB service compares the stored end date (the start of that
  day) with the instant of the request and lists nothing, the SQLite service compares
  the date texts and lists the theme; the staff listing shows it. The stored end date
  and the instant of the request are on the same day.
\<close>

theorem mg_student_listing_drops_end_date:
  "mg_student_themes False 1715331600000 sample_mongo_db = Inr []
   \<and> sq_student_themes sample_sqlite3 False ''2024-05-10T09:00:00.000Z'' sample_sqlite_db =
       Inr (themes sample_sqlite_db)
   \<and> mg_staff_themes False sample_mongo_db = Inr (toClient (Theme sample_mongo_db))
   \<and> map td_end_date (Theme sample_mongo_db) = [Some 1715299200000]
   \<and> 1715299200000 div 86400000 = (1715331600000::int) div 86400000"
  by (simp add: mg_student_themes_def sq_student_themes_def mg_staff_themes_def
        sample_mongo_db_def sample_sqlite_db_def sample_sqlite3_def decimal_text_def
        toClient_def newest_first_def)

section \<open>Further properties\<close>

text \<open>
  A token issued before the last successful rotation is no longer valid: after
  generate-url answered 200, verify-token answers 401 for every other token. Both
  services.
\<close>

theorem rotation_invalidates_old_tokens:
  "(status (snd (sq_generate_url de ie now tok req db)) = 200 \<and> t \<noteq> tok \<longrightarrow>
      sq_verify_token False t (fst (sq_generate_url de ie now tok req db)) =
        reply 401 invalid_token_json)
   \<and> (status (snd (mg_generate_url de' ie' oid now' tok req mdb)) = 200 \<and> t \<noteq> tok \<longrightarrow>
      mg_verify_token False t (fst (mg_generate_url de' ie' oid now' tok req mdb)) =
        reply 401 invalid_token_json)"
  using sq_issue(1) [of de ie now tok req db] mg_issue(1) [of de' ie' oid now' tok req mdb]
  by (auto simp: sq_verify_token_def mg_verify_token_def)

theorem rotation_invalidates_old_tokens_witness:
  "status (snd (sq_generate_url False False ''2024-05-03 00:00:00'' ''new-token''
             (sample_request []) sample_sqlite_db)) = 200
   \<and> sq_verify_token False ''old-token'' sample_sqlite_db = reply 200 (JObj [(''valid'', JBool True)])
   \<and> sq_verify_token False ''old-token''
        (fst (sq_generate_url False False ''2024-05-03 00:00:00'' ''new-token''
             (sample_request []) sample_sqlite_db)) = reply 401 invalid_token_json
   \<and> status (snd (mg_generate_url False False ''665000000000000000000004'' 1714694400000
             ''new-token'' (sample_request []) sample_mongo_db)) = 200
   \<and> mg_verify_token False ''old-token'' sample_mongo_db = reply 200 (JObj [(''valid'', JBool True)])
   \<and> mg_verify_token False ''old-token''
        (fst (mg_generate_url False False ''665000000000000000000004'' 1714694400000
             ''new-token'' (sample_request []) sample_mongo_db)) = reply 401 invalid_token_json"
proof -
  have s: "status (snd (sq_generate_url False False ''2024-05-03 00:00:00'' ''new-token''
             (sample_request []) sample_sqlite_db)) = 200"
    by (simp add: sq_generate_url_def insert_token_def reply_def)
  have m: "status (snd (mg_generate_url False False ''665000000000000000000004'' 1714694400000
             ''new-token'' (sample_request []) sample_mongo_db)) = 200"
    by (simp add: mg_generate_url_def create_token_def reply_def)
  have before: "sq_verify_token False ''old-token'' sample_sqlite_db =
        reply 200 (JObj [(''valid'', JBool True)])"
      "mg_verify_token False ''old-token'' sample_mongo_db =
        reply 200 (JObj [(''valid'', JBool True)])"
    by (simp_all add: sq_verify_token_def mg_verify_token_def sample_sqlite_db_def
          sample_mongo_db_def)
  have ne: "''old-token'' \<noteq> ''new-token''"
    by simp
  show ?thesis
    using s m before ne
      rotation_invalidates_old_tokens [of False False "''2024-05-03 00:00:00''" "''new-token''"
        "sample_request []" sample_sqlite_db "''old-token''" False False
        "''665000000000000000000004''" 1714694400000 sample_mongo_db]
    by blast
qed

text \<open>
  At most one token row: a store that holds at most one row holds at most one after
  generate-url, whatever the outcome of the request. Both services.
\<close>

theorem at_most_one_token:
  "(length (access_token db) \<le> 1 \<longrightarrow>
      length (access_token (fst (sq_generate_url de ie now tok req db))) \<le> 1)
   \<and> (length (AccessToken mdb) \<le> 1 \<longrightarrow>
      length (AccessToken (fst (mg_generate_url de' ie' oid now' tok req mdb))) \<le> 1)"
  by (auto simp: sq_generate_url_def mg_generate_url_def insert_token_def create_token_def Let_def)
theorem at_most_one_token_witness:
  "length (access_token sample_sqlite_db) \<le> 1
   \<and> length (access_token (fst (sq_generate_url False True ''2024-05-03 00:00:00'' ''new-token''
        (sample_request []) sample_sqlite_db))) \<le> 1
   \<and> length (AccessToken sample_mongo_db) \<le> 1
   \<and> length (AccessToken (fst (mg_generate_url False False ''665000000000000000000004''
        1714694400000 ''new-token'' (sample_request []) sample_mongo_db))) \<le> 1"
proof -
  have a: "length (access_token sample_sqlite_db) \<le> 1"
    by (simp add: sample_sqlite_db_def)
  have b: "length (AccessToken sample_mongo_db) \<le> 1"
    by (simp add: sample_mongo_db_def)
  show ?thesis
    using a b
      at_most_one_token [of sample_sqlite_db False True "''2024-05-03 00:00:00''" "''new-token''"
        "sample_request []" sample_mongo_db False False "''665000000000000000000004''"
        1714694400000]
    by blast
qed
lemma sorted_newest_first: "sorted (rev (map key (newest_first key rows)))"
  by (simp add: newest_first_def rev_map [symmetric])

lemma mset_newest_first: "mset (newest_first key rows) = mset rows"
  by (simp add: newest_first_def)

text \<open>
  The staff listing returns exactly the active themes (each once, with no date filter),
  newest first. Both services.
\<close>

theorem staff_listing:
  "(\<exists>rows. sq_staff_themes False db = Inr rows
       \<and> mset rows = mset (filter (\<lambda>r. t_is_active r = 1) (themes db))
       \<and> sorted (rev (map t_created_at rows)))
   \<and> (\<exists>docs. mg_staff_themes False mdb = Inr (toClient docs)
       \<and> mset docs = mset (filter td_is_active (Theme mdb))
       \<and> sorted (rev (map td_created_at docs)))"
proof (intro conjI)
  show "\<exists>rows. sq_staff_themes False db = Inr rows
       \<and> mset rows = mset (filter (\<lambda>r. t_is_active r = 1) (themes db))
       \<and> sorted (rev (map t_created_at rows))"
    by (rule exI [of _ "newest_first t_created_at (filter (\<lambda>r. t_is_active r = 1) (themes db))"])
       (simp add: sq_staff_themes_def sorted_newest_first mset_newest_first)
  show "\<exists>docs. mg_staff_themes False mdb = Inr (toClient docs)
       \<and> mset docs = mset (filter td_is_active (Theme mdb))
       \<and> sorted (rev (map td_created_at docs))"
    by (rule exI [of _ "newest_first td_created_at (filter td_is_active (Theme mdb))"])
       (simp add: mg_staff_themes_def sorted_newest_first mset_newest_first)
qed

lemma of_char_digit: "n < 10 \<Longrightarrow> of_char (digit n) = 48 + n"
proof -
  assume "n < 10"
  then have "n \<in> {0, 1, 2, 3, 4, 5, 6, 7, 8, 9}" by auto
  then show ?thesis
    by (auto simp: digit_def)
qed

lemma digit_less: "a < 10 \<Longrightarrow> b < 10 \<Longrightarrow> (digit a < digit b) = (a < b)"
  by (simp add: less_char_def of_char_digit)

lemma digit_eq: "a < 10 \<Longrightarrow> b < 10 \<Longrightarrow> (digit a = digit b) = (a = b)"
  by (metis digit_less nat_neq_iff less_irrefl)

lemma two_digits_less_digits:
  "(two_digits a < two_digits b) =
     (a div 10 mod 10 < b div 10 mod 10 \<or> a div 10 mod 10 = b div 10 mod 10 \<and> a mod 10 < b mod 10)"
  by (simp add: two_digits_def digit_less digit_eq)


lemma lex_less:
  "ra < k \<Longrightarrow> rb < k \<Longrightarrow> (qa < qb \<or> qa = qb \<and> ra < rb) = (k * qa + ra < k * qb + (rb::nat))"
proof (cases "qa < qb")
  case True
  assume "ra < k" "rb < k"
  from True have "qa + 1 \<le> qb" by simp
  then have "k * (qa + 1) \<le> k * qb" by (rule mult_le_mono2)
  with \<open>ra < k\<close> have "k * qa + ra < k * qb + rb" by (simp add: algebra_simps)
  with True show ?thesis by simp
next
  case False
  assume "ra < k" "rb < k"
  show ?thesis
  proof (cases "qa = qb")
    case True
    then show ?thesis by simp
  next
    case ne: False
    with False have "qb + 1 \<le> qa" by simp
    then have "k * (qb + 1) \<le> k * qa" by (rule mult_le_mono2)
    with \<open>rb < k\<close> have "\<not> k * qa + ra < k * qb + rb" by (simp add: algebra_simps)
    with False ne show ?thesis by simp
  qed
qed

lemma lex_eq:
  "ra < k \<Longrightarrow> rb < k \<Longrightarrow> (qa = qb \<and> ra = rb) = (k * qa + ra = k * qb + (rb::nat))"
  using lex_less [of ra k rb qa qb] lex_less [of rb k ra qb qa] by auto

lemma two_digits_less:
  assumes "a < 100" and "b < 100"
  shows "(two_digits a < two_digits b) = (a < b)"
proof -
  have q: "a div 10 mod 10 = a div 10" "b div 10 mod 10 = b div 10"
    and d: "a div 10 < 10" "b div 10 < 10"
    using assms by simp_all
  have "(two_digits a < two_digits b) =
        (a div 10 < b div 10 \<or> a div 10 = b div 10 \<and> a mod 10 < b mod 10)"
    by (simp add: two_digits_def digit_less digit_eq q d)
  also have "\<dots> = (10 * (a div 10) + a mod 10 < 10 * (b div 10) + b mod 10)"
    by (rule lex_less) simp_all
  also have "\<dots> = (a < b)"
    by simp
  finally show ?thesis .
qed

lemma two_digits_eq:
  assumes "a < 100" and "b < 100"
  shows "(two_digits a = two_digits b) = (a = b)"
proof -
  have q: "a div 10 mod 10 = a div 10" "b div 10 mod 10 = b div 10"
    and d: "a div 10 < 10" "b div 10 < 10"
    using assms by simp_all
  have "(two_digits a = two_digits b) = (a div 10 = b div 10 \<and> a mod 10 = b mod 10)"
    by (simp add: two_digits_def digit_eq q d)
  also have "\<dots> = (10 * (a div 10) + a mod 10 = 10 * (b div 10) + b mod 10)"
    by (rule lex_eq) simp_all
  also have "\<dots> = (a = b)"
    by simp
  finally show ?thesis .
qed

lemma two_digits_le:
  assumes "a < 100" and "b < 100"
  shows "(two_digits a \<le> two_digits b) = (a \<le> b)"
proof -
  have "(two_digits a \<le> two_digits b) = (two_digits a < two_digits b \<or> two_digits a = two_digits b)"
    by (rule le_less)
  also have "\<dots> = (a < b \<or> a = b)"
    by (simp only: two_digits_less [OF assms] two_digits_eq [OF assms])
  also have "\<dots> = (a \<le> b)"
    by (simp only: le_less)
  finally show ?thesis .
qed


lemma block_le:
  "length u = length v \<Longrightarrow> (u @ x \<le> v @ y) = (u < v \<or> u = v \<and> x \<le> y)"
  by (induction u v rule: list_induct2) auto

lemma length_two_digits: "length (two_digits n) = 2"
  by (simp add: two_digits_def)

lemma year_less: "(y div 100 < y' div 100 \<or> y div 100 = y' div 100 \<and> y mod 100 < y' mod 100) = (y < (y'::nat))"
proof -
  have "(y div 100 < y' div 100 \<or> y div 100 = y' div 100 \<and> y mod 100 < y' mod 100) =
        (100 * (y div 100) + y mod 100 < 100 * (y' div 100) + y' mod 100)"
    by (rule lex_less) simp_all
  then show ?thesis by simp
qed

lemma year_eq: "(y div 100 = y' div 100 \<and> y mod 100 = y' mod 100) = (y = (y'::nat))"
proof -
  have "(y div 100 = y' div 100 \<and> y mod 100 = y' mod 100) =
        (100 * (y div 100) + y mod 100 = 100 * (y' div 100) + y' mod 100)"
    by (rule lex_eq) simp_all
  then show ?thesis by simp
qed

lemma iso_date_le:
  assumes "calendar_date a" and "calendar_date b"
  shows "(iso_date a \<le> iso_date b) = date_le a b"
proof -
  obtain y m d where a: "a = (y, m, d)" by (cases a)
  obtain y' m' d' where b: "b = (y', m', d')" by (cases b)
  from assms a b have bounds: "y < 10000" "y' < 10000" "m < 100" "m' < 100" "d < 100" "d' < 100"
    by auto
  then have yb: "y div 100 < 100" "y' div 100 < 100" "y mod 100 < 100" "y' mod 100 < 100"
    by auto
  have "(iso_date a \<le> iso_date b) =
        (y div 100 < y' div 100 \<or> y div 100 = y' div 100 \<and>
          (y mod 100 < y' mod 100 \<or> y mod 100 = y' mod 100 \<and>
            (m < m' \<or> m = m' \<and> d \<le> d')))"
    by (simp add: a b block_le length_two_digits two_digits_less two_digits_eq two_digits_le
          bounds yb)
  also have "\<dots> = date_le a b"
    unfolding a b date_le.simps
    using year_less [of y y'] year_eq [of y y'] by blast
  finally show ?thesis .
qed

lemma digit_not_T: "n < 10 \<Longrightarrow> digit n \<noteq> CHR ''T''"
proof
  assume "n < 10" and "digit n = CHR ''T''"
  then have "of_char (digit n) = (of_char (CHR ''T'') :: nat)" by simp
  with \<open>n < 10\<close> show False by (simp add: of_char_digit)
qed

lemma no_T_in_two_digits: "CHR ''T'' \<notin> set (two_digits n)"
proof -
  have "digit (n div 10 mod 10) \<noteq> CHR ''T''"
    by (rule digit_not_T) simp
  moreover have "digit (n mod 10) \<noteq> CHR ''T''"
    by (rule digit_not_T) simp
  ultimately show ?thesis
    unfolding two_digits_def by auto
qed

lemma no_T_in_iso_date: "CHR ''T'' \<notin> set (iso_date a)"
  by (cases a) (simp add: no_T_in_two_digits)

lemma date_part: "takeWhile (\<lambda>c. c \<noteq> CHR ''T'') (iso_date a @ CHR ''T'' # rest) = iso_date a"
proof -
  have "takeWhile (\<lambda>c. c \<noteq> CHR ''T'') (iso_date a @ CHR ''T'' # rest) =
        iso_date a @ takeWhile (\<lambda>c. c \<noteq> CHR ''T'') (CHR ''T'' # rest)"
  proof (rule takeWhile_append2)
    fix c
    assume "c \<in> set (iso_date a)"
    with no_T_in_iso_date [of a] show "c \<noteq> CHR ''T''"
      by blast
  qed
  then show ?thesis
    by simp
qed

lemma set_newest_first: "set (newest_first key rows) = set rows"
  by (simp add: newest_first_def)

lemma start_cell_le:
  assumes "calendar_date today" and "\<forall>a. s = Some a \<longrightarrow> calendar_date a"
  shows "(date_cell s = SNull \<or> sql_le (date_cell s) (SText (iso_date today))) =
         (case s of None \<Rightarrow> True | Some a \<Rightarrow> date_le a today)"
  using assms by (cases s) (simp_all add: iso_date_le)

lemma end_cell_le:
  assumes "calendar_date today" and "\<forall>b. e = Some b \<longrightarrow> calendar_date b"
  shows "(date_cell e = SNull \<or> sql_le (SText (iso_date today)) (date_cell e)) =
         (case e of None \<Rightarrow> True | Some b \<Rightarrow> date_le today b)"
  using assms by (cases e) (simp_all add: iso_date_le)

text \<open>
  The student listing of the SQLite service, on themes whose dates are stored as date
  texts: a stored theme is listed exactly when it is active and today's date (the date
  part of the current ISO timestamp, whatever the time of day) is not before its start
  date and not after its end date, a NULL date being no bound; the listing is a part of
  the stored themes, newest first. The engine is assumed not to read today's date text
  as a number.
\<close>

theorem sq_student_listing_by_date:
  assumes "calendar_date today"
    and "now_iso = iso_date today @ CHR ''T'' # rest"
    and "numeric_text d (iso_date today) = None"
    and "r \<in> set (themes db)"
    and "t_start_date r = date_cell s" and "\<forall>a. s = Some a \<longrightarrow> calendar_date a"
    and "t_end_date r = date_cell e" and "\<forall>b. e = Some b \<longrightarrow> calendar_date b"
  shows "\<exists>rows. sq_student_themes d False now_iso db = Inr rows
           \<and> sorted (rev (map t_created_at rows))
           \<and> set rows \<subseteq> set (themes db)
           \<and> (r \<in> set rows) =
               (t_is_active r = 1
                \<and> (case s of None \<Rightarrow> True | Some a \<Rightarrow> date_le a today)
                \<and> (case e of None \<Rightarrow> True | Some b \<Rightarrow> date_le today b))"
proof -
  let ?keep = "\<lambda>r. t_is_active r = 1
      \<and> (t_start_date r = SNull \<or> sql_le (t_start_date r) (SText (iso_date today)))
      \<and> (t_end_date r = SNull \<or> sql_le (SText (iso_date today)) (t_end_date r))"
  let ?rows = "newest_first t_created_at (filter ?keep (themes db))"
  have listing: "sq_student_themes d False now_iso db = Inr ?rows"
    using assms(2,3) by (simp add: sq_student_themes_def date_part Let_def)
  have member: "(r \<in> set ?rows) =
      (t_is_active r = 1
       \<and> (case s of None \<Rightarrow> True | Some a \<Rightarrow> date_le a today)
       \<and> (case e of None \<Rightarrow> True | Some b \<Rightarrow> date_le today b))"
    using assms(4) start_cell_le [OF assms(1,6)] end_cell_le [OF assms(1,8)]
    by (simp add: set_newest_first assms(5,7))
  have sub: "set ?rows \<subseteq> set (themes db)"
    by (auto simp: set_newest_first)
  from listing member sub sorted_newest_first [of t_created_at "filter ?keep (themes db)"]
  show ?thesis by blast
qed

theorem sq_student_listing_by_date_witness:
  "calendar_date (2024, 5, 10)
   \<and> ''2024-05-10T09:00:00.000Z'' = iso_date (2024, 5, 10) @ CHR ''T'' # ''09:00:00.000Z''
   \<and> numeric_text sample_sqlite3 (iso_date (2024, 5, 10)) = None
   \<and> hd (themes sample_sqlite_db) \<in> set (themes sample_sqlite_db)
   \<and> t_start_date (hd (themes sample_sqlite_db)) = date_cell (Some (2024, 5, 1))
   \<and> t_end_date (hd (themes sample_sqlite_db)) = date_cell (Some (2024, 5, 10))
   \<and> (\<exists>rows. sq_student_themes sample_sqlite3 False ''2024-05-10T09:00:00.000Z''
                 sample_sqlite_db = Inr rows
         \<and> hd (themes sample_sqlite_db) \<in> set rows)"
proof -
  have h1: "calendar_date (2024, 5, 10)" and h1': "calendar_date (2024, 5, 1)"
    by simp_all
  have h2: "''2024-05-10T09:00:00.000Z'' = iso_date (2024, 5, 10) @ CHR ''T'' # ''09:00:00.000Z''"
    by (simp add: two_digits_def digit_def)
  have h3: "numeric_text sample_sqlite3 (iso_date (2024, 5, 10)) = None"
    by (simp add: two_digits_def digit_def sample_sqlite3_def decimal_text_def)
  have h4: "hd (themes sample_sqlite_db) \<in> set (themes sample_sqlite_db)"
    by (simp add: sample_sqlite_db_def)
  have h5: "t_start_date (hd (themes sample_sqlite_db)) = date_cell (Some (2024, 5, 1))"
    and h7: "t_end_date (hd (themes sample_sqlite_db)) = date_cell (Some (2024, 5, 10))"
    and act: "t_is_active (hd (themes sample_sqlite_db)) = 1"
    by (simp_all add: sample_sqlite_db_def two_digits_def digit_def)
  have h6: "\<forall>a. Some (2024, 5, 1) = Some a \<longrightarrow> calendar_date a"
    and h8: "\<forall>b. Some (2024, 5, 10) = Some b \<longrightarrow> calendar_date b"
    by auto
  from sq_student_listing_by_date [OF h1 h2 h3 h4 h5 h6 h7 h8] act
  have "\<exists>rows. sq_student_themes sample_sqlite3 False ''2024-05-10T09:00:00.000Z''
                 sample_sqlite_db = Inr rows
         \<and> hd (themes sample_sqlite_db) \<in> set rows"
    by auto
  with h1 h2 h3 h4 h5 h7 show ?thesis
    by blast
qed

end
